theory Spec2Isabelle
  imports Main "HOL-Library.Word"
begin

unbundle bit_operations_syntax

section \<open>Shared vocabulary\<close>

text \<open>
  Go strings are byte sequences, so a Go \<open>string\<close> is a \<open>string\<close> (a list of 8-bit
  \<open>char\<close>s) and \<open>len\<close> is \<open>length\<close>. A \<open>[]byte\<close> is a list of 8-bit words; the nil
  slice and the empty slice are both \<open>[]\<close>.
\<close>

type_synonym byte = "8 word"
type_synonym uint8 = "8 word"
type_synonym uint32 = "32 word"
type_synonym int64 = "64 word"

text \<open>
  A Go function either returns or panics (nil dereference, \<open>make\<close> with a negative
  length, a panic of a library). \<open>Panic\<close> is a result of the model, never an unspecified value.
\<close>

datatype 'a outcome = Panic | Return 'a

section \<open>pkg/gofman: application errors\<close>

definition ECONFLICT :: string where "ECONFLICT = ''conflict''"
definition EINTERNAL :: string where "EINTERNAL = ''internal''"
definition EINVALID :: string where "EINVALID = ''invalid''"
definition ENOTFOUND :: string where "ENOTFOUND = ''not_found''"
definition ENOTIMPLEMENTED :: string where "ENOTIMPLEMENTED = ''not_implemented''"
definition EUNAUTHORIZED :: string where "EUNAUTHORIZED = ''unauthorized''"

text \<open>
  A Go \<open>error\<close> value is nil (\<open>None\<close>) or an error. \<open>Error\<close> is \<open>*gofman.Error\<close> with its
  \<open>Code\<close> and \<open>Message\<close>; \<open>Foreign\<close> is an error value made by another package
  (\<open>fmt\<close>, \<open>encoding/base64\<close>, \<open>crypto/rand\<close>), kept with its text.
\<close>

datatype error = Error (Code: string) (Message: string) | Foreign string

text \<open>
  \<open>NewError(code, format, args...)\<close>. Every call in the modelled code passes a format
  without arguments and without verbs, for which \<open>fmt.Sprintf\<close> returns the format itself.
\<close>

definition NewError :: "string \<Rightarrow> string \<Rightarrow> error" where
  "NewError code format = Error code format"

fun ErrorCode :: "error option \<Rightarrow> string" where
  "ErrorCode None = ''''"
| "ErrorCode (Some (Error c m)) = c"
| "ErrorCode (Some (Foreign m)) = EINTERNAL"

fun ErrorMessage :: "error option \<Rightarrow> string" where
  "ErrorMessage None = ''''"
| "ErrorMessage (Some (Error c m)) = m"
| "ErrorMessage (Some (Foreign m)) = ''Internal error.''"

section \<open>pkg/gofman: resources\<close>

record User =
  User_ID :: string
  User_Username :: string
  User_Password :: string
  User_IsAdmin :: bool
  User_IsDemo :: bool
  User_CreatedAt :: int64
  User_UpdatedAt :: int64
  User_RemovedAt :: int64

record Session =
  Session_ID :: string
  Session_UserID :: string
  Session_Token :: string
  Session_CreatedAt :: int64

record File =
  File_ID :: string
  File_UserID :: string
  File_Name :: string
  File_Type :: string
  File_Path :: string
  File_Checksum :: string
  File_CreatedAt :: int64
  File_UpdatedAt :: int64
  File_RemovedAt :: int64

record Tag =
  Tag_ID :: string
  Tag_UserID :: string
  Tag_Name :: string
  Tag_CreatedAt :: int64
  Tag_UpdatedAt :: int64
  Tag_RemovedAt :: int64

record Actor =
  Actor_ID :: string
  Actor_UserID :: string
  Actor_Name :: string
  Actor_CreatedAt :: int64
  Actor_UpdatedAt :: int64
  Actor_RemovedAt :: int64

text \<open>
  A \<open>*User\<close>, \<open>*Session\<close>, \<open>*File\<close>, \<open>*Tag\<close> or \<open>*Actor\<close> is \<open>None\<close> (nil) or \<open>Some\<close> of the
  struct it points to: the predicates only read through these pointers.

  The filters hold \<open>*string\<close> fields that the find predicates compare as pointers, so
  a \<open>*string\<close> is an address into an explicit store of string variables.
\<close>

datatype ptr = nil | Addr nat

type_synonym store = "string list"

definition valid :: "store \<Rightarrow> ptr \<Rightarrow> bool" where
  "valid h p = (case p of nil \<Rightarrow> True | Addr a \<Rightarrow> a < length h)"

definition deref :: "store \<Rightarrow> ptr \<Rightarrow> string outcome" where
  "deref h p = (case p of nil \<Rightarrow> Panic
                | Addr a \<Rightarrow> if a < length h then Return (h ! a) else Panic)"

text \<open>
  Declaring a variable whose address is taken allocates a cell that no pointer made
  before can point to: the new variable gets the first address after the store.
\<close>

definition new_var :: "store \<Rightarrow> string \<Rightarrow> ptr \<times> store" where
  "new_var h v = (Addr (length h), h @ [v])"

record FileFilter =
  FileFilter_ID :: ptr
  FileFilter_UserID :: ptr
  FileFilter_Type :: ptr
  FileFilter_Offset :: int
  FileFilter_Limit :: int

record TagFilter =
  TagFilter_ID :: ptr
  TagFilter_UserID :: ptr
  TagFilter_Offset :: int
  TagFilter_Limit :: int

record ActorFilter =
  ActorFilter_ID :: ptr
  ActorFilter_UserID :: ptr
  ActorFilter_Offset :: int
  ActorFilter_Limit :: int

section \<open>pkg/gofman/context.go\<close>

text \<open>
  A \<open>context.Context\<close> is the chain of \<open>WithValue\<close> calls that built it, innermost
  first; \<open>Value\<close> returns the innermost value stored under a key.
\<close>

datatype contextKey = requestIDContextKey | userContextKey | sessionContextKey

datatype ctxValue = StringValue string | UserValue "User option" | SessionValue "Session option"

type_synonym Context = "(contextKey \<times> ctxValue) list"

definition WithValue :: "Context \<Rightarrow> contextKey \<Rightarrow> ctxValue \<Rightarrow> Context" where
  "WithValue ctx k v = (k, v) # ctx"

definition Value :: "Context \<Rightarrow> contextKey \<Rightarrow> ctxValue option" where
  "Value ctx k = map_of ctx k"

definition NewContextWithRequestID :: "Context \<Rightarrow> string \<Rightarrow> Context" where
  "NewContextWithRequestID ctx v = WithValue ctx requestIDContextKey (StringValue v)"

definition RequestIDFromContext :: "Context \<Rightarrow> string" where
  "RequestIDFromContext ctx =
     (case Value ctx requestIDContextKey of Some (StringValue v) \<Rightarrow> v | _ \<Rightarrow> '''')"

definition NewContextWithUser :: "Context \<Rightarrow> User option \<Rightarrow> Context" where
  "NewContextWithUser ctx user = WithValue ctx userContextKey (UserValue user)"

definition UserFromContext :: "Context \<Rightarrow> User option" where
  "UserFromContext ctx =
     (case Value ctx userContextKey of Some (UserValue v) \<Rightarrow> v | _ \<Rightarrow> None)"

definition UserIDFromContext :: "Context \<Rightarrow> string" where
  "UserIDFromContext ctx =
     (case UserFromContext ctx of Some user \<Rightarrow> User_ID user | None \<Rightarrow> '''')"

definition NewContextWithSession :: "Context \<Rightarrow> Session option \<Rightarrow> Context" where
  "NewContextWithSession ctx session = WithValue ctx sessionContextKey (SessionValue session)"

definition SessionFromContext :: "Context \<Rightarrow> Session option" where
  "SessionFromContext ctx =
     (case Value ctx sessionContextKey of Some (SessionValue v) \<Rightarrow> v | _ \<Rightarrow> None)"

section \<open>pkg/gofman: the authorization predicates\<close>

subsection \<open>Find predicates\<close>

text \<open>
  \<open>id := UserIDFromContext(ctx); return id != "" && filter.UserID == &id\<close>:
  \<open>id\<close> is a new variable of the call, and the comparison is between the filter's
  pointer and the address of that variable.
\<close>

definition CanFindFile :: "store \<Rightarrow> Context \<Rightarrow> FileFilter \<Rightarrow> bool" where
  "CanFindFile h ctx flt =
     (let uid = UserIDFromContext ctx; (addr_id, h') = new_var h uid
      in uid \<noteq> '''' \<and> FileFilter_UserID flt = addr_id)"

definition CanFindTag :: "store \<Rightarrow> Context \<Rightarrow> TagFilter \<Rightarrow> bool" where
  "CanFindTag h ctx flt =
     (let uid = UserIDFromContext ctx; (addr_id, h') = new_var h uid
      in uid \<noteq> '''' \<and> TagFilter_UserID flt = addr_id)"

definition CanFindActor :: "store \<Rightarrow> Context \<Rightarrow> ActorFilter \<Rightarrow> bool" where
  "CanFindActor h ctx flt =
     (let uid = UserIDFromContext ctx; (addr_id, h') = new_var h uid
      in uid \<noteq> '''' \<and> ActorFilter_UserID flt = addr_id)"

text \<open>
  The find predicates as the specification words them: an acting identity is present and
  the filter's owner constraint is set and equal to that identity's id.
\<close>

definition spec_CanFind :: "store \<Rightarrow> Context \<Rightarrow> ptr \<Rightarrow> bool" where
  "spec_CanFind h ctx owner =
     (case UserFromContext ctx of None \<Rightarrow> False
      | Some user \<Rightarrow> deref h owner = Return (User_ID user))"

subsection \<open>Mutate predicates\<close>

text \<open>
  \<open>if user := UserFromContext(ctx); user != nil && user.IsDemo { return false }\<close>, else
  \<open>id != "" && file.UserID == id\<close>: the resource is read only when \<open>id\<close> is not empty,
  and reading through a nil resource panics.
\<close>

definition CanUpdateFile :: "Context \<Rightarrow> File option \<Rightarrow> bool outcome" where
  "CanUpdateFile ctx file =
     (let user = UserFromContext ctx in
      if (case user of Some u \<Rightarrow> User_IsDemo u | None \<Rightarrow> False) then Return False
      else
        (let uid = UserIDFromContext ctx in
         if uid \<noteq> '''' then
           (case file of None \<Rightarrow> Panic | Some f \<Rightarrow> Return (File_UserID f = uid))
         else Return False))"

definition CanUpdateTag :: "Context \<Rightarrow> Tag option \<Rightarrow> bool outcome" where
  "CanUpdateTag ctx tag =
     (let user = UserFromContext ctx in
      if (case user of Some u \<Rightarrow> User_IsDemo u | None \<Rightarrow> False) then Return False
      else
        (let uid = UserIDFromContext ctx in
         if uid \<noteq> '''' then
           (case tag of None \<Rightarrow> Panic | Some t \<Rightarrow> Return (Tag_UserID t = uid))
         else Return False))"

definition CanUpdateActor :: "Context \<Rightarrow> Actor option \<Rightarrow> bool outcome" where
  "CanUpdateActor ctx actor =
     (let user = UserFromContext ctx in
      if (case user of Some u \<Rightarrow> User_IsDemo u | None \<Rightarrow> False) then Return False
      else
        (let uid = UserIDFromContext ctx in
         if uid \<noteq> '''' then
           (case actor of None \<Rightarrow> Panic | Some a \<Rightarrow> Return (Actor_UserID a = uid))
         else Return False))"

definition CanDeleteSession :: "Context \<Rightarrow> Session option \<Rightarrow> bool outcome" where
  "CanDeleteSession ctx session =
     (let uid = UserIDFromContext ctx in
      if uid \<noteq> '''' then
        (case session of None \<Rightarrow> Panic | Some s \<Rightarrow> Return (Session_UserID s = uid))
      else Return False)"

subsection \<open>User predicates\<close>

definition CanCreateUser :: "Context \<Rightarrow> bool" where
  "CanCreateUser ctx =
     (case UserFromContext ctx of Some user \<Rightarrow> User_IsAdmin user | None \<Rightarrow> False)"

text \<open>
  \<open>CanUpdateUser(ctx, user *User)\<close>. The first \<open>if\<close> declares
  \<open>user := UserFromContext(ctx)\<close>, and in Go that variable is in scope in every \<open>else\<close>
  branch of the statement: \<open>user.ID\<close> in the second condition reads the context's user,
  not the parameter, which the body never reads. The branches are numbered in source
  order so that a theorem can say which \<open>return\<close> was taken.
\<close>

datatype branch = DemoBranch | SelfBranch | AdminBranch | AnonymousBranch

definition CanUpdateUser_at :: "Context \<Rightarrow> User option \<Rightarrow> (branch \<times> bool) outcome" where
  "CanUpdateUser_at ctx target =
     (let user = UserFromContext ctx in
      if (case user of Some u \<Rightarrow> User_IsDemo u | None \<Rightarrow> False) then Return (DemoBranch, False)
      else
        (let uid = UserIDFromContext ctx in
         case user of
           None \<Rightarrow> Panic
         | Some u \<Rightarrow>
             if User_ID u = uid then Return (SelfBranch, True)
             else
               (case UserFromContext ctx of
                  Some user' \<Rightarrow> Return (AdminBranch, User_IsAdmin user')
                | None \<Rightarrow> Return (AnonymousBranch, False))))"

definition CanUpdateUser :: "Context \<Rightarrow> User option \<Rightarrow> bool outcome" where
  "CanUpdateUser ctx target =
     (case CanUpdateUser_at ctx target of Panic \<Rightarrow> Panic | Return (b, r) \<Rightarrow> Return r)"

text \<open>
  The update/remove rule as the specification words it: the acting identity is the
  target itself and not demo, or it is an admin acting on another user; anything else,
  also no acting identity, is denied.
\<close>

definition spec_CanUpdateUser :: "Context \<Rightarrow> User \<Rightarrow> bool" where
  "spec_CanUpdateUser ctx target =
     (case UserFromContext ctx of
        None \<Rightarrow> False
      | Some u \<Rightarrow>
          (User_ID u = User_ID target \<and> \<not> User_IsDemo u)
          \<or> (User_IsAdmin u \<and> User_ID u \<noteq> User_ID target))"

section \<open>pkg/http/auth.go: the session middleware\<close>

text \<open>
  A request carries its parsed cookies, in header order, and its context.
  \<open>r.Cookie(name)\<close> returns the first cookie of that name, or \<open>ErrNoCookie\<close>.
  The two services are the server's collaborators: they return a pointer and an error,
  each of which may be nil.
\<close>

record Request =
  Request_Cookies :: "(string \<times> string) list"
  Request_Context :: Context

record Server =
  FindSessionForToken :: "Context \<Rightarrow> string \<Rightarrow> string \<Rightarrow> Session option \<times> error option"
  FindUserByID :: "Context \<Rightarrow> string \<Rightarrow> User option \<times> error option"

definition Cookie :: "Request \<Rightarrow> string \<Rightarrow> string option" where
  "Cookie r name =
     (if name = '''' then None
      else map_option snd (find (\<lambda>c. fst c = name) (Request_Cookies r)))"

definition WithContext :: "Request \<Rightarrow> Context \<Rightarrow> Request" where
  "WithContext r ctx = r\<lparr>Request_Context := ctx\<rparr>"

text \<open>
  A middleware takes the next handler and returns a handler; a handler maps the request
  to whatever it writes as the response.
\<close>

definition authenticate :: "Server \<Rightarrow> (Request \<Rightarrow> 'resp) \<Rightarrow> Request \<Rightarrow> 'resp" where
  "authenticate s next r =
     (case Cookie r ''Session'' of
        None \<Rightarrow> next r
      | Some sessionid \<Rightarrow>
          (case Cookie r ''Token'' of
             None \<Rightarrow> next r
           | Some token \<Rightarrow>
               (case FindSessionForToken s (Request_Context r) sessionid token of
                  (Some session, None) \<Rightarrow>
                    (case FindUserByID s (Request_Context r) (Session_UserID session) of
                       (Some user, None) \<Rightarrow>
                         (let r1 = WithContext r
                                     (NewContextWithSession (Request_Context r) (Some session));
                              r2 = WithContext r1
                                     (NewContextWithUser (Request_Context r1) (Some user))
                          in next r2)
                     | _ \<Rightarrow> next r)
                | _ \<Rightarrow> next r)))"

datatype 'a response = Redirect string nat | Served 'a

definition StatusFound :: nat where "StatusFound = 302"

definition requireAuth :: "(Request \<Rightarrow> 'a response) \<Rightarrow> Request \<Rightarrow> 'a response" where
  "requireAuth next r =
     (let userid = UserIDFromContext (Request_Context r) in
      if userid = '''' then Redirect ''/login'' StatusFound
      else
        (case SessionFromContext (Request_Context r) of
           None \<Rightarrow> Redirect ''/login'' StatusFound
         | Some session \<Rightarrow>
             if Session_ID session = '''' then Redirect ''/login'' StatusFound
             else next r))"

section \<open>pkg/auth/auth.go\<close>

subsection \<open>Random bytes\<close>

text \<open>
  \<open>make([]byte, n)\<close> panics at run time when \<open>n\<close> is negative; otherwise the slice holds
  \<open>n\<close> zero bytes (a length beyond what the runtime can allocate is outside this model).
  \<open>rand.Read(b)\<close> of \<open>crypto/rand\<close> is a parameter: it maps the buffer to the buffer as
  filled and the error it returns.
\<close>

type_synonym rand = "byte list \<Rightarrow> byte list \<times> error option"

definition make_bytes :: "int \<Rightarrow> byte list outcome" where
  "make_bytes n = (if n < 0 then Panic else Return (replicate (nat n) 0))"

definition GenerateRandomBytes :: "rand \<Rightarrow> int \<Rightarrow> (byte list \<times> error option) outcome" where
  "GenerateRandomBytes rand_Read n =
     (if n < - 1 then
        Return ([], Some (NewError EINTERNAL ''Length must be a positive int.''))
      else
        (case make_bytes n of
           Panic \<Rightarrow> Panic
         | Return b \<Rightarrow>
             (case rand_Read b of
                (b', Some err) \<Rightarrow> Return ([], Some err)
              | (b', None) \<Rightarrow> Return (b', None))))"

subsection \<open>Library functions the package calls\<close>

text \<open>
  Results that carry an error are \<open>error + 'a\<close>, with \<open>Inl\<close> the error; \<open>and_then\<close>
  passes a value on and stops at the first error.
\<close>

fun and_then :: "error + 'a \<Rightarrow> ('a \<Rightarrow> error + 'b) \<Rightarrow> error + 'b" where
  "and_then (Inl e) f = Inl e"
| "and_then (Inr x) f = f x"

text \<open>\<open>[]byte(s)\<close>: the bytes of a string.\<close>

definition bytes_of :: "string \<Rightarrow> byte list" where
  "bytes_of s = map of_char s"

paragraph \<open>encoding/base64, RawURLEncoding: the URL alphabet, no padding, not strict\<close>

definition encodeURL :: string where
  "encodeURL = ''ABCDEFGHIJKLMNOPQRSTUVWXYZabcdefghijklmnopqrstuvwxyz0123456789-_''"

text \<open>\<open>enc.encode[val&0x3F]\<close>\<close>

definition encode6 :: "64 word \<Rightarrow> char" where
  "encode6 val = encodeURL ! unat (val AND 0x3F)"

text \<open>
  \<open>Encode\<close> takes three bytes at a time into four characters; one or two remaining
  bytes give two or three characters, and no padding follows.
\<close>

fun Encode :: "byte list \<Rightarrow> string" where
  "Encode (a # b # c # src) =
     (let val = push_bit 16 (ucast a) OR push_bit 8 (ucast b) OR ucast c
      in encode6 (drop_bit 18 val) # encode6 (drop_bit 12 val) # encode6 (drop_bit 6 val)
         # encode6 val # Encode src)"
| "Encode [a, b] =
     (let val = push_bit 16 (ucast a) OR push_bit 8 (ucast b)
      in [encode6 (drop_bit 18 val), encode6 (drop_bit 12 val), encode6 (drop_bit 6 val)])"
| "Encode [a] =
     (let val = push_bit 16 (ucast a)
      in [encode6 (drop_bit 18 val), encode6 (drop_bit 12 val)])"
| "Encode [] = []"

text \<open>\<open>enc.decodeMap\<close>: the 6-bit value of a character of the alphabet, \<open>0xFF\<close> for any other byte.\<close>

definition decodeMap :: "char \<Rightarrow> byte" where
  "decodeMap c =
     (case map_of (zip encodeURL (map of_nat [0..<64])) c of Some v \<Rightarrow> v | None \<Rightarrow> 0xFF)"

text \<open>
  Decoding reads the input left to right: a character of the alphabet gives its value,
  a line feed or carriage return is skipped, any other byte is a \<open>CorruptInputError\<close>
  (modelled without its position). The values are taken four at a time into three bytes;
  two or three remaining values give one or two bytes, a single remaining value is an error.
\<close>

fun decode_values :: "string \<Rightarrow> error + byte list" where
  "decode_values [] = Inr []"
| "decode_values (c # src) =
     (let out = decodeMap c in
      if out \<noteq> 0xFF then and_then (decode_values src) (\<lambda>ds. Inr (out # ds))
      else if c = CHR 0x0A \<or> c = CHR 0x0D then decode_values src
      else Inl (Foreign ''illegal base64 data''))"

fun decode_quanta :: "byte list \<Rightarrow> error + byte list" where
  "decode_quanta (d0 # d1 # d2 # d3 # ds) =
     (let val = push_bit 18 (ucast d0) OR push_bit 12 (ucast d1) OR push_bit 6 (ucast d2)
                OR (ucast d3 :: 64 word)
      in and_then (decode_quanta ds)
           (\<lambda>dst. Inr (ucast (drop_bit 16 val) # ucast (drop_bit 8 val) # ucast val # dst)))"
| "decode_quanta [d0, d1, d2] =
     (let val = push_bit 18 (ucast d0) OR push_bit 12 (ucast d1) OR push_bit 6 (ucast d2 :: 64 word)
      in Inr [ucast (drop_bit 16 val), ucast (drop_bit 8 val)])"
| "decode_quanta [d0, d1] =
     (let val = push_bit 18 (ucast d0) OR push_bit 12 (ucast d1 :: 64 word)
      in Inr [ucast (drop_bit 16 val)])"
| "decode_quanta [d0] = Inl (Foreign ''illegal base64 data'')"
| "decode_quanta [] = Inr []"

definition DecodeString :: "string \<Rightarrow> error + byte list" where
  "DecodeString s = and_then (decode_values s) decode_quanta"

paragraph \<open>strings.Split with a separator of one byte\<close>

fun Split :: "string \<Rightarrow> char \<Rightarrow> string list" where
  "Split [] sep = [[]]"
| "Split (c # s) sep =
     (if c = sep then [] # Split s sep
      else (case Split s sep of x # xs \<Rightarrow> (c # x) # xs | [] \<Rightarrow> [[c]]))"

paragraph \<open>fmt.Sprintf: the verb \<open>%d\<close> on an int\<close>

fun FormatUint :: "nat \<Rightarrow> string" where
  "FormatUint n =
     (if n < 10 then [''0123456789'' ! n]
      else FormatUint (n div 10) @ [''0123456789'' ! (n mod 10)])"

declare FormatUint.simps [simp del]

definition FormatInt :: "int \<Rightarrow> string" where
  "FormatInt i = (if i < 0 then CHR ''-'' # FormatUint (nat (- i)) else FormatUint (nat i))"

paragraph \<open>fmt.Sscanf: literals and the verb \<open>%d\<close>\<close>

text \<open>
  The scanner reads runes from the UTF-8 bytes of its input. The literals of the two
  formats, the signs and the decimal digits are ASCII, so a rune matches one of them
  exactly when its single byte does. What the scanner skips as space is a rune of its
  table: U+0009 to U+000D, U+0020, U+0085, U+00A0, U+1680, U+2000 to U+200A, U+2028,
  U+2029, U+202F, U+205F and U+3000. The runes of the table beyond ASCII are read from
  their UTF-8 encodings, of two or three bytes, and no other byte sequence decodes to
  them. In \<open>Sscanf\<close> a line feed is not skipped: meeting one while skipping is an error.
  Input left over after the last verb is ignored. Errors keep their kind as text.
\<close>

definition isSpace :: "char \<Rightarrow> bool" where
  "isSpace c = (c \<in> set [CHR 0x09, CHR 0x0A, CHR 0x0B, CHR 0x0C, CHR 0x0D, CHR 0x20])"

definition space_encodings :: "string list" where
  "space_encodings =
     [[CHR 0xC2, CHR 0x85], [CHR 0xC2, CHR 0xA0], [CHR 0xE1, CHR 0x9A, CHR 0x80],
      [CHR 0xE2, CHR 0x80, CHR 0x80], [CHR 0xE2, CHR 0x80, CHR 0x81],
      [CHR 0xE2, CHR 0x80, CHR 0x82], [CHR 0xE2, CHR 0x80, CHR 0x83],
      [CHR 0xE2, CHR 0x80, CHR 0x84], [CHR 0xE2, CHR 0x80, CHR 0x85],
      [CHR 0xE2, CHR 0x80, CHR 0x86], [CHR 0xE2, CHR 0x80, CHR 0x87],
      [CHR 0xE2, CHR 0x80, CHR 0x88], [CHR 0xE2, CHR 0x80, CHR 0x89],
      [CHR 0xE2, CHR 0x80, CHR 0x8A], [CHR 0xE2, CHR 0x80, CHR 0xA8],
      [CHR 0xE2, CHR 0x80, CHR 0xA9], [CHR 0xE2, CHR 0x80, CHR 0xAF],
      [CHR 0xE2, CHR 0x81, CHR 0x9F], [CHR 0xE3, CHR 0x80, CHR 0x80]]"

text \<open>
  The number of bytes of the space rune that the input starts with, 0 when it starts
  with none.
\<close>

definition space_width :: "string \<Rightarrow> nat" where
  "space_width s =
     (if s \<noteq> [] \<and> isSpace (hd s) then 1
      else
        (case find (\<lambda>e. take (length e) s = e) space_encodings of
           Some e \<Rightarrow> length e
         | None \<Rightarrow> 0))"

function SkipSpace :: "string \<Rightarrow> error + string" where
  "SkipSpace s =
     (if s = [] then Inr []
      else if hd s = CHR 0x0A then Inl (Foreign ''unexpected newline'')
      else if space_width s = 0 then Inr s
      else SkipSpace (drop (space_width s) s))"
  by pat_completeness auto
termination
  by (relation "measure length") auto

declare SkipSpace.simps [simp del]

text \<open>A run of literal characters of the format against the input.\<close>

fun literal :: "string \<Rightarrow> string \<Rightarrow> error + string" where
  "literal [] s = Inr s"
| "literal (f # fs) [] = Inl (Foreign ''unexpected EOF'')"
| "literal (f # fs) (c # s) =
     (if f = c then literal fs s else Inl (Foreign ''input does not match format''))"

text \<open>\<open>notEOF\<close> fails with \<open>io.EOF\<close> when no input is left.\<close>

definition notEOF :: "string \<Rightarrow> error + string" where
  "notEOF s = (if s = [] then Inl (Foreign ''EOF'') else Inr s)"

text \<open>
  \<open>scanNumber\<close> takes the longest run of decimal digits (the scanner's digit set for
  \<open>%d\<close>); the token and the rest of the input are returned.
\<close>

definition scanNumber :: "string \<Rightarrow> error + string \<times> string" where
  "scanNumber s =
     and_then (notEOF s) (\<lambda>s.
       let tok = takeWhile (\<lambda>c. c \<in> set ''0123456789'') s in
       if tok = [] then Inl (Foreign ''expected integer'')
       else Inr (tok, dropWhile (\<lambda>c. c \<in> set ''0123456789'') s))"

definition digit_value :: "char \<Rightarrow> nat" where
  "digit_value c = of_char c - 48"

text \<open>
  \<open>strconv.ParseUint(tok, 10, 64)\<close>: decimal digits only, and the value must fit 64 bits.
\<close>

definition ParseUint :: "string \<Rightarrow> error + nat" where
  "ParseUint tok =
     (if tok = [] \<or> (\<exists>c \<in> set tok. c \<notin> set ''0123456789'') then Inl (Foreign ''invalid syntax'')
      else
        (let n = foldl (\<lambda>n c. n * 10 + digit_value c) 0 tok in
         if n \<ge> 2 ^ 64 then Inl (Foreign ''value out of range'') else Inr n))"

text \<open>\<open>strconv.ParseInt(tok, 10, 64)\<close>: an optional sign, then as \<open>ParseUint\<close>, within int64.\<close>

definition ParseInt :: "string \<Rightarrow> error + int" where
  "ParseInt tok =
     (let neg = (tok \<noteq> [] \<and> hd tok = CHR ''-'');
          body = (if tok \<noteq> [] \<and> (hd tok = CHR ''+'' \<or> hd tok = CHR ''-'') then tl tok else tok)
      in
      if body = [] \<or> (\<exists>c \<in> set body. c \<notin> set ''0123456789'') then Inl (Foreign ''invalid syntax'')
      else
        (let un = foldl (\<lambda>n c. n * 10 + digit_value c) 0 body in
         if \<not> neg \<and> un \<ge> 2 ^ 63 then Inl (Foreign ''value out of range'')
         else if neg \<and> un > 2 ^ 63 then Inl (Foreign ''value out of range'')
         else Inr (if neg then - int un else int un)))"

text \<open>
  \<open>scanUint(verb, bitSize)\<close> for \<open>%d\<close> into an unsigned integer of \<open>bitSize\<close> bits, and
  \<open>scanInt\<close> into an \<open>int\<close> (64 bits), which accepts a sign first.
\<close>

definition scanUint :: "nat \<Rightarrow> string \<Rightarrow> error + nat \<times> string" where
  "scanUint bitSize s =
     and_then (SkipSpace s) (\<lambda>s.
     and_then (notEOF s) (\<lambda>s.
     and_then (scanNumber s) (\<lambda>(tok, rest).
     and_then (ParseUint tok) (\<lambda>i.
       if i \<ge> 2 ^ bitSize then Inl (Foreign ''unsigned integer overflow'')
       else Inr (i, rest)))))"

definition scanInt :: "string \<Rightarrow> error + int \<times> string" where
  "scanInt s =
     and_then (SkipSpace s) (\<lambda>s.
     and_then (notEOF s) (\<lambda>s.
       let sign = (if hd s = CHR ''+'' \<or> hd s = CHR ''-'' then [hd s] else []);
           s = (if sign = [] then s else tl s)
       in
       and_then (scanNumber s) (\<lambda>(tok, rest).
       and_then (ParseInt (sign @ tok)) (\<lambda>i. Inr (i, rest)))))"

text \<open>\<open>fmt.Sscanf(str, "v=%d", &p.Version)\<close> with \<open>p.Version\<close> an int.\<close>

definition Sscanf_v :: "string \<Rightarrow> error + int" where
  "Sscanf_v str =
     and_then (literal ''v='' str) (\<lambda>s.
     and_then (SkipSpace s) (\<lambda>s.
     and_then (scanInt s) (\<lambda>(version, s). Inr version)))"

text \<open>
  \<open>fmt.Sscanf(str, "m=%d,t=%d,p=%d", &p.Memory, &p.Time, &p.Threads)\<close> with
  \<open>Memory\<close> and \<open>Time\<close> of type uint32 and \<open>Threads\<close> of type uint8.
\<close>

definition Sscanf_mtp :: "string \<Rightarrow> error + uint32 \<times> uint32 \<times> uint8" where
  "Sscanf_mtp str =
     and_then (literal ''m='' str) (\<lambda>s.
     and_then (SkipSpace s) (\<lambda>s.
     and_then (scanUint 32 s) (\<lambda>(memory, s).
     and_then (literal '',t='' s) (\<lambda>s.
     and_then (SkipSpace s) (\<lambda>s.
     and_then (scanUint 32 s) (\<lambda>(time, s).
     and_then (literal '',p='' s) (\<lambda>s.
     and_then (SkipSpace s) (\<lambda>s.
     and_then (scanUint 8 s) (\<lambda>(threads, s).
       Inr (of_nat memory, of_nat time, of_nat threads))))))))))"

text \<open>
  \<open>fmt.Sprintf("$argon2id$v=%d$m=%d,t=%d,p=%d$%s$%s", v, m, t, p, salt, hash)\<close> with
  four ints and two strings.
\<close>

definition Sprintf_key :: "int \<Rightarrow> int \<Rightarrow> int \<Rightarrow> int \<Rightarrow> string \<Rightarrow> string \<Rightarrow> string" where
  "Sprintf_key v m t p salt hash =
     ''$argon2id$v='' @ FormatInt v @ ''$m='' @ FormatInt m @ '',t='' @ FormatInt t
     @ '',p='' @ FormatInt p @ ''$'' @ salt @ ''$'' @ hash"

text \<open>
  \<open>subtle.ConstantTimeCompare(x, y)\<close>: 1 when the two slices have equal contents, 0
  otherwise (also when their lengths differ).
\<close>

definition ConstantTimeCompare :: "byte list \<Rightarrow> byte list \<Rightarrow> int" where
  "ConstantTimeCompare x y = (if x = y then 1 else 0)"

text \<open>
  \<open>argon2.IDKey(password, salt, time, memory, threads, keyLen)\<close> of
  \<open>golang.org/x/crypto/argon2\<close> is a parameter of the model: a function of its six
  arguments that returns the derived key or panics.
\<close>

type_synonym argon2 =
  "byte list \<Rightarrow> byte list \<Rightarrow> uint32 \<Rightarrow> uint32 \<Rightarrow> uint8 \<Rightarrow> uint32 \<Rightarrow> byte list outcome"

definition argon2_Version :: int where
  "argon2_Version = 0x13"

subsection \<open>Tokens, hashing and verification\<close>

definition ArgonTime :: int where "ArgonTime = 1"
definition ArgonMemory :: int where "ArgonMemory = 64 * 1024"
definition ArgonThreads :: int where "ArgonThreads = 4"
definition ArgonKeyLen :: int where "ArgonKeyLen = 32"

definition EncodeToBase64String :: "byte list \<Rightarrow> string" where
  "EncodeToBase64String b = Encode b"

definition DecodeBase64String :: "string \<Rightarrow> error + byte list" where
  "DecodeBase64String s = DecodeString s"

definition NewToken :: "rand \<Rightarrow> (string \<times> error option) outcome" where
  "NewToken rand_Read =
     (case GenerateRandomBytes rand_Read 32 of
        Panic \<Rightarrow> Panic
      | Return (b, Some err) \<Rightarrow> Return ('''', Some err)
      | Return (b, None) \<Rightarrow> Return (EncodeToBase64String b, None))"

definition NewPassword :: "rand \<Rightarrow> (string \<times> error option) outcome" where
  "NewPassword rand_Read =
     (case GenerateRandomBytes rand_Read 8 of
        Panic \<Rightarrow> Panic
      | Return (b, Some err) \<Rightarrow> Return ('''', Some err)
      | Return (b, None) \<Rightarrow> Return (EncodeToBase64String b, None))"

definition NewSalt :: "rand \<Rightarrow> (string \<times> error option) outcome" where
  "NewSalt rand_Read =
     (case GenerateRandomBytes rand_Read 16 of
        Panic \<Rightarrow> Panic
      | Return (b, Some err) \<Rightarrow> Return ('''', Some err)
      | Return (b, None) \<Rightarrow> Return (EncodeToBase64String b, None))"

definition HashPassword :: "argon2 \<Rightarrow> string \<Rightarrow> string \<Rightarrow> (string \<times> error option) outcome" where
  "HashPassword IDKey password salt =
     (if password = '''' then Return ('''', Some (NewError EINVALID ''Password required.''))
      else if salt = '''' then Return ('''', Some (NewError EINVALID ''Salt required.''))
      else
        (case IDKey (bytes_of password) (bytes_of salt)
                (word_of_int ArgonTime) (word_of_int ArgonMemory)
                (word_of_int ArgonThreads) (word_of_int ArgonKeyLen) of
           Panic \<Rightarrow> Panic
         | Return hash \<Rightarrow>
             (let b64Salt = EncodeToBase64String (bytes_of salt);
                  b64Hash = EncodeToBase64String hash;
                  key = Sprintf_key argon2_Version ArgonMemory ArgonTime ArgonThreads
                          b64Salt b64Hash
              in Return (key, None))))"

definition VerifyPassword :: "argon2 \<Rightarrow> string \<Rightarrow> string \<Rightarrow> error option outcome" where
  "VerifyPassword IDKey password key =
     (if password = '''' then Return (Some (NewError EINVALID ''Password required.''))
      else if key = '''' then Return (Some (NewError EINVALID ''Argon2 key required.''))
      else
        (let decodedKey = Split key CHR ''$'' in
         if length decodedKey \<noteq> 6 then
           Return (Some (NewError EINVALID ''Decoded key wrong length.''))
         else
           (case Sscanf_v (decodedKey ! 2) of
              Inl err \<Rightarrow> Return (Some err)
            | Inr version \<Rightarrow>
                if version \<noteq> argon2_Version then
                  Return (Some (NewError EINVALID ''Argon version mismatch.''))
                else
                  (case Sscanf_mtp (decodedKey ! 3) of
                     Inl err \<Rightarrow> Return (Some err)
                   | Inr (memory, time, threads) \<Rightarrow>
                       (case DecodeBase64String (decodedKey ! 4) of
                          Inl err \<Rightarrow> Return (Some err)
                        | Inr salt \<Rightarrow>
                            (case DecodeBase64String (decodedKey ! 5) of
                               Inl err \<Rightarrow> Return (Some err)
                             | Inr hash \<Rightarrow>
                                 (let keyLen = (of_nat (length hash) :: uint32) in
                                  case IDKey (bytes_of password) salt time memory threads keyLen of
                                    Panic \<Rightarrow> Panic
                                  | Return control \<Rightarrow>
                                      if ConstantTimeCompare hash control = 1 then Return None
                                      else Return (Some (NewError EINVALID
                                                           ''Hash not equal password.'')))))))))"

subsection \<open>Notions used in the statements about keys\<close>

text \<open>
  The fields of a well-formed credential key: the memory cost, time cost and parallelism,
  the salt and the hash it embeds. \<open>None\<close> for a malformed key: an empty one, one that
  does not split into exactly six \<open>$\<close>-segments, one whose version does not scan or is not
  the library's version, one whose parameters do not scan, one whose salt or hash is not
  base64.
\<close>

definition key_fields :: "string \<Rightarrow> (uint32 \<times> uint32 \<times> uint8 \<times> byte list \<times> byte list) option" where
  "key_fields key =
     (if key = '''' then None
      else
        (let decodedKey = Split key CHR ''$'' in
         if length decodedKey \<noteq> 6 then None
         else
           (case Sscanf_v (decodedKey ! 2) of
              Inl err \<Rightarrow> None
            | Inr version \<Rightarrow>
                if version \<noteq> argon2_Version then None
                else
                  (case Sscanf_mtp (decodedKey ! 3) of
                     Inl err \<Rightarrow> None
                   | Inr (memory, time, threads) \<Rightarrow>
                       (case DecodeBase64String (decodedKey ! 4) of
                          Inl err \<Rightarrow> None
                        | Inr salt \<Rightarrow>
                            (case DecodeBase64String (decodedKey ! 5) of
                               Inl err \<Rightarrow> None
                             | Inr hash \<Rightarrow> Some (memory, time, threads, salt, hash)))))))"

text \<open>A result whose error, if it has one, was made by a library and not by \<open>NewError\<close>.\<close>

definition library_error :: "error + 'a \<Rightarrow> bool" where
  "library_error r = (case r of Inl (Error c m) \<Rightarrow> False | _ \<Rightarrow> True)"

text \<open>The input after a number ends the number: it is empty or starts with no digit.\<close>

definition stops :: "string \<Rightarrow> bool" where
  "stops rest = (case rest of [] \<Rightarrow> True | c # s \<Rightarrow> c \<notin> set ''0123456789'')"

section \<open>Concrete inputs\<close>

text \<open>Users, resources, a store and a server on which the theorems below are run.\<close>

definition alice :: User where
  "alice = \<lparr>User_ID = ''alice'', User_Username = ''alice'', User_Password = ''secret-a'',
            User_IsAdmin = False, User_IsDemo = False,
            User_CreatedAt = 1, User_UpdatedAt = 1, User_RemovedAt = 0\<rparr>"

definition bob :: User where
  "bob = \<lparr>User_ID = ''bob'', User_Username = ''bob'', User_Password = ''secret-b'',
          User_IsAdmin = False, User_IsDemo = False,
          User_CreatedAt = 2, User_UpdatedAt = 2, User_RemovedAt = 0\<rparr>"

definition root_user :: User where
  "root_user = \<lparr>User_ID = ''root'', User_Username = ''root'', User_Password = ''secret-r'',
                User_IsAdmin = True, User_IsDemo = False,
                User_CreatedAt = 0, User_UpdatedAt = 0, User_RemovedAt = 0\<rparr>"

definition demo_user :: User where
  "demo_user = \<lparr>User_ID = ''demo'', User_Username = ''demo'', User_Password = ''secret-d'',
                User_IsAdmin = False, User_IsDemo = True,
                User_CreatedAt = 3, User_UpdatedAt = 3, User_RemovedAt = 0\<rparr>"

definition demo_admin :: User where
  "demo_admin = \<lparr>User_ID = ''showcase'', User_Username = ''showcase'',
                 User_Password = ''secret-s'', User_IsAdmin = True, User_IsDemo = True,
                 User_CreatedAt = 4, User_UpdatedAt = 4, User_RemovedAt = 0\<rparr>"

definition file_of :: "string \<Rightarrow> File" where
  "file_of owner = \<lparr>File_ID = ''f1'', File_UserID = owner, File_Name = ''clip'',
                     File_Type = ''video'', File_Path = ''/media/clip'', File_Checksum = ''c0ffee'',
                     File_CreatedAt = 5, File_UpdatedAt = 5, File_RemovedAt = 0\<rparr>"

definition tag_of :: "string \<Rightarrow> Tag" where
  "tag_of owner = \<lparr>Tag_ID = ''t1'', Tag_UserID = owner, Tag_Name = ''holiday'',
                    Tag_CreatedAt = 5, Tag_UpdatedAt = 5, Tag_RemovedAt = 0\<rparr>"

definition actor_of :: "string \<Rightarrow> Actor" where
  "actor_of owner = \<lparr>Actor_ID = ''a1'', Actor_UserID = owner, Actor_Name = ''someone'',
                      Actor_CreatedAt = 5, Actor_UpdatedAt = 5, Actor_RemovedAt = 0\<rparr>"

text \<open>
  A store whose only string variable holds \<open>alice\<close>, and filters whose owner constraint
  points to it: what a caller builds with \<open>uid := "alice"; filter.UserID = &uid\<close>.
\<close>

definition alice_store :: store where
  "alice_store = [''alice'']"

definition alice_files :: FileFilter where
  "alice_files = \<lparr>FileFilter_ID = nil, FileFilter_UserID = Addr 0, FileFilter_Type = nil,
                  FileFilter_Offset = 0, FileFilter_Limit = 10\<rparr>"

definition alice_tags :: TagFilter where
  "alice_tags = \<lparr>TagFilter_ID = nil, TagFilter_UserID = Addr 0,
                 TagFilter_Offset = 0, TagFilter_Limit = 10\<rparr>"

definition alice_actors :: ActorFilter where
  "alice_actors = \<lparr>ActorFilter_ID = nil, ActorFilter_UserID = Addr 0,
                   ActorFilter_Offset = 0, ActorFilter_Limit = 10\<rparr>"

text \<open>A source of "random" bytes that leaves the buffer as it is.\<close>

definition zero_rand :: rand where
  "zero_rand b = (b, None)"

text \<open>
  A server whose session store knows one session of \<open>alice\<close> and one of a user that
  no longer exists, and whose user store knows \<open>alice\<close>.
\<close>

definition alice_session :: Session where
  "alice_session = \<lparr>Session_ID = ''s1'', Session_UserID = ''alice'',
                    Session_Token = ''tok-1'', Session_CreatedAt = 7\<rparr>"

definition orphan_session :: Session where
  "orphan_session = \<lparr>Session_ID = ''s2'', Session_UserID = ''gone'',
                     Session_Token = ''tok-2'', Session_CreatedAt = 8\<rparr>"

definition test_server :: Server where
  "test_server =
     \<lparr>FindSessionForToken = (\<lambda>ctx sid tok.
          if sid = ''s1'' \<and> tok = ''tok-1'' then (Some alice_session, None)
          else if sid = ''s2'' \<and> tok = ''tok-2'' then (Some orphan_session, None)
          else (None, Some (NewError ENOTFOUND ''Session not found.''))),
      FindUserByID = (\<lambda>ctx uid.
          if uid = ''alice'' then (Some alice, None)
          else (None, Some (NewError ENOTFOUND ''User not found.'')))\<rparr>"

definition request_with :: "(string \<times> string) list \<Rightarrow> Request" where
  "request_with cs = \<lparr>Request_Cookies = cs,
                       Request_Context = NewContextWithRequestID [] ''req-1''\<rparr>"

text \<open>
  A stand-in for \<open>argon2.IDKey\<close> on which \<open>HashPassword\<close> and \<open>VerifyPassword\<close> can be
  run: like the library it panics on fewer than one pass or one thread and returns
  \<open>keyLen\<close> bytes, and its bytes depend on the password, the salt and each cost parameter.
\<close>

definition toy_IDKey :: argon2 where
  "toy_IDKey password salt time memory threads keyLen =
     (if time < 1 \<or> threads < 1 then Panic
      else Return (replicate (unat keyLen)
                     (of_nat (length password + length salt)
                      + ucast time + ucast memory + ucast threads)))"

text \<open>
  The 32 bytes that the repository's test expects \<open>argon2.IDKey\<close> to derive from the
  password \<open>password\<close> and the salt \<open>salt\<close> with the fixed parameters, and an \<open>IDKey\<close>
  that returns them.
\<close>

definition test_digest :: "byte list" where
  "test_digest =
     [57, 108, 38, 156, 161, 94, 152, 161, 54, 32, 184, 204, 235, 72, 245, 178,
      141, 104, 69, 112, 197, 37, 138, 175, 58, 38, 37, 101, 48, 114, 190, 229]"

definition test_IDKey :: argon2 where
  "test_IDKey password salt time memory threads keyLen = Return test_digest"

section \<open>The context\<close>

lemma UserFromContext_NewContextWithUser [simp]:
  "UserFromContext (NewContextWithUser ctx u) = u"
  by (simp add: UserFromContext_def NewContextWithUser_def WithValue_def Value_def)

lemma UserFromContext_NewContextWithSession [simp]:
  "UserFromContext (NewContextWithSession ctx s) = UserFromContext ctx"
  by (simp add: UserFromContext_def NewContextWithSession_def WithValue_def Value_def)

lemma SessionFromContext_NewContextWithSession [simp]:
  "SessionFromContext (NewContextWithSession ctx s) = s"
  by (simp add: SessionFromContext_def NewContextWithSession_def WithValue_def Value_def)

lemma SessionFromContext_NewContextWithUser [simp]:
  "SessionFromContext (NewContextWithUser ctx u) = SessionFromContext ctx"
  by (simp add: SessionFromContext_def NewContextWithUser_def WithValue_def Value_def)

lemma UserFromContext_empty [simp]: "UserFromContext [] = None"
  by (simp add: UserFromContext_def Value_def)

lemma UserFromContext_NewContextWithRequestID [simp]:
  "UserFromContext (NewContextWithRequestID ctx v) = UserFromContext ctx"
  by (simp add: UserFromContext_def NewContextWithRequestID_def WithValue_def Value_def)

lemma SessionFromContext_NewContextWithRequestID [simp]:
  "SessionFromContext (NewContextWithRequestID ctx v) = SessionFromContext ctx"
  by (simp add: SessionFromContext_def NewContextWithRequestID_def WithValue_def Value_def)

lemma SessionFromContext_empty [simp]: "SessionFromContext [] = None"
  by (simp add: SessionFromContext_def Value_def)

lemma UserIDFromContext_Some: "UserFromContext ctx = Some u \<Longrightarrow> UserIDFromContext ctx = User_ID u"
  by (simp add: UserIDFromContext_def)

lemma UserIDFromContext_None: "UserFromContext ctx = None \<Longrightarrow> UserIDFromContext ctx = ''''"
  by (simp add: UserIDFromContext_def)

section \<open>The user update predicate\<close>

text \<open>
  With an acting identity in the context, the result of \<open>CanUpdateUser\<close> depends on that
  identity's demo flag alone: the comparison in the second branch is of the context's
  user with its own id.
\<close>

lemma CanUpdateUser_present:
  "UserFromContext ctx = Some u \<Longrightarrow> CanUpdateUser ctx target = Return (\<not> User_IsDemo u)"
  by (simp add: CanUpdateUser_def CanUpdateUser_at_def UserIDFromContext_Some)

lemma CanUpdateUser_absent:
  "UserFromContext ctx = None \<Longrightarrow> CanUpdateUser_at ctx target = Panic"
  by (simp add: CanUpdateUser_at_def)

text \<open>
  The shadowed parameter at work: \<open>alice\<close>, neither admin nor demo, may update \<open>bob\<close>.
\<close>

lemma CanUpdateUser_shadowed_parameter:
  "\<not> User_IsAdmin alice \<and> User_ID alice \<noteq> User_ID bob
   \<and> CanUpdateUser (NewContextWithUser [] (Some alice)) (Some bob) = Return True"
  by (simp add: CanUpdateUser_present [of _ alice] alice_def bob_def)

text \<open>
  C1, as the specification states it, fails on the code: a demo identity that is also an
  admin, acting on another user, is permitted by the stated rule and denied by
  \<open>CanUpdateUser\<close>, whose first branch rejects every demo identity.
\<close>

theorem CanUpdateUser_demo_admin_counterexample:
  "spec_CanUpdateUser (NewContextWithUser [] (Some demo_admin)) bob
   \<and> CanUpdateUser (NewContextWithUser [] (Some demo_admin)) (Some bob) = Return False"
  by (simp add: spec_CanUpdateUser_def CanUpdateUser_present [of _ demo_admin]
      demo_admin_def bob_def)

text \<open>
  C1, amended: for every context that carries an acting identity and every target,
  \<open>CanUpdateUser\<close> denies when the acting identity is a demo identity, and permits when
  the acting identity is not demo and is the target itself or is an admin.
\<close>

theorem CanUpdateUser_demo_denied_self_or_admin_permitted:
  assumes "UserFromContext ctx = Some u"
  shows "(User_IsDemo u \<longrightarrow> CanUpdateUser ctx target = Return False)
       \<and> (\<not> User_IsDemo u
            \<and> ((\<exists>t. target = Some t \<and> User_ID t = User_ID u) \<or> User_IsAdmin u)
            \<longrightarrow> CanUpdateUser ctx target = Return True)"
  using assms by (simp add: CanUpdateUser_present)

theorem CanUpdateUser_demo_denied_self_or_admin_permitted_witness:
  "CanUpdateUser (NewContextWithUser [] (Some demo_user)) (Some demo_user) = Return False
   \<and> CanUpdateUser (NewContextWithUser [] (Some alice)) (Some alice) = Return True
   \<and> CanUpdateUser (NewContextWithUser [] (Some root_user)) (Some bob) = Return True"
  using
    CanUpdateUser_demo_denied_self_or_admin_permitted
      [of "NewContextWithUser [] (Some demo_user)" demo_user "Some demo_user"]
    CanUpdateUser_demo_denied_self_or_admin_permitted
      [of "NewContextWithUser [] (Some alice)" alice "Some alice"]
    CanUpdateUser_demo_denied_self_or_admin_permitted
      [of "NewContextWithUser [] (Some root_user)" root_user "Some bob"]
  by (simp add: demo_user_def alice_def root_user_def)

text \<open>
  C10: with no identity in the context, \<open>CanUpdateUser\<close> panics on the nil user of its
  second condition instead of returning false, and no call returns through the last
  branch, the one written for the anonymous caller.
\<close>

theorem CanUpdateUser_anonymous_panics:
  "(UserFromContext ctx = None \<longrightarrow> CanUpdateUser ctx target = Panic)
   \<and> (\<forall>b. CanUpdateUser_at ctx target \<noteq> Return (AnonymousBranch, b))"
proof (cases "UserFromContext ctx")
  case None
  then show ?thesis
    by (simp add: CanUpdateUser_def CanUpdateUser_absent)
next
  case (Some u)
  then show ?thesis
    by (simp add: CanUpdateUser_at_def UserIDFromContext_Some)
qed

theorem CanUpdateUser_anonymous_panics_witness:
  "UserFromContext [] = None \<and> CanUpdateUser [] (Some bob) = Panic"
  using CanUpdateUser_anonymous_panics [of "[]" "Some bob"] by simp

section \<open>The find predicates\<close>

text \<open>
  C2 fails on the code. The predicates compare the filter's pointer with the address of
  the local variable \<open>id\<close>, which no pointer of the caller can equal: for every store,
  context and filter whose owner pointer is nil or points into the store, all three deny.
\<close>

theorem CanFind_never_permits:
  assumes "valid h (FileFilter_UserID ff)"
    and "valid h (TagFilter_UserID tf)"
    and "valid h (ActorFilter_UserID af)"
  shows "\<not> CanFindFile h ctx ff \<and> \<not> CanFindTag h ctx tf \<and> \<not> CanFindActor h ctx af"
  using assms
  by (auto simp: CanFindFile_def CanFindTag_def CanFindActor_def new_var_def valid_def
      split: ptr.splits)

text \<open>
  The failing input: \<open>alice\<close> is the acting identity and the filter's owner constraint
  is a variable holding \<open>alice\<close>. The stated rule permits; the code denies.
\<close>

theorem CanFind_never_permits_witness:
  "spec_CanFind alice_store (NewContextWithUser [] (Some alice)) (FileFilter_UserID alice_files)
   \<and> spec_CanFind alice_store (NewContextWithUser [] (Some alice)) (TagFilter_UserID alice_tags)
   \<and> spec_CanFind alice_store (NewContextWithUser [] (Some alice)) (ActorFilter_UserID alice_actors)
   \<and> \<not> CanFindFile alice_store (NewContextWithUser [] (Some alice)) alice_files
   \<and> \<not> CanFindTag alice_store (NewContextWithUser [] (Some alice)) alice_tags
   \<and> \<not> CanFindActor alice_store (NewContextWithUser [] (Some alice)) alice_actors"
  using CanFind_never_permits
    [of alice_store alice_files alice_tags alice_actors "NewContextWithUser [] (Some alice)"]
  by (simp add: spec_CanFind_def deref_def valid_def alice_store_def alice_files_def
      alice_tags_def alice_actors_def alice_def)

section \<open>The mutate predicates\<close>

lemma CanUpdateFile_demo:
  "UserFromContext ctx = Some u \<Longrightarrow> User_IsDemo u \<Longrightarrow> CanUpdateFile ctx file = Return False"
  by (simp add: CanUpdateFile_def)

lemma CanUpdateTag_demo:
  "UserFromContext ctx = Some u \<Longrightarrow> User_IsDemo u \<Longrightarrow> CanUpdateTag ctx tag = Return False"
  by (simp add: CanUpdateTag_def)

lemma CanUpdateActor_demo:
  "UserFromContext ctx = Some u \<Longrightarrow> User_IsDemo u \<Longrightarrow> CanUpdateActor ctx actor = Return False"
  by (simp add: CanUpdateActor_def)

lemma CanUpdateFile_permits:
  "CanUpdateFile ctx file = Return True \<longleftrightarrow>
     (\<exists>u f. UserFromContext ctx = Some u \<and> \<not> User_IsDemo u \<and> User_ID u \<noteq> ''''
            \<and> file = Some f \<and> File_UserID f = User_ID u)"
  by (auto simp: CanUpdateFile_def UserIDFromContext_def Let_def split: option.splits if_splits)

lemma CanUpdateTag_permits:
  "CanUpdateTag ctx tag = Return True \<longleftrightarrow>
     (\<exists>u t. UserFromContext ctx = Some u \<and> \<not> User_IsDemo u \<and> User_ID u \<noteq> ''''
            \<and> tag = Some t \<and> Tag_UserID t = User_ID u)"
  by (auto simp: CanUpdateTag_def UserIDFromContext_def Let_def split: option.splits if_splits)

lemma CanUpdateActor_permits:
  "CanUpdateActor ctx actor = Return True \<longleftrightarrow>
     (\<exists>u a. UserFromContext ctx = Some u \<and> \<not> User_IsDemo u \<and> User_ID u \<noteq> ''''
            \<and> actor = Some a \<and> Actor_UserID a = User_ID u)"
  by (auto simp: CanUpdateActor_def UserIDFromContext_def Let_def split: option.splits if_splits)

text \<open>
  C8: the mutate predicates for file, tag and actor deny whenever the acting identity is
  a demo identity, whoever owns the resource; and when one of them permits, an acting
  identity is present, it is not demo, and its id is the resource's owner id.
\<close>

theorem CanUpdate_demo_denied_owner_only:
  "(\<forall>u. UserFromContext ctx = Some u \<and> User_IsDemo u \<longrightarrow>
        CanUpdateFile ctx file = Return False
      \<and> CanUpdateTag ctx tag = Return False
      \<and> CanUpdateActor ctx actor = Return False)
   \<and> (CanUpdateFile ctx file = Return True \<longrightarrow>
        (\<exists>u f. UserFromContext ctx = Some u \<and> \<not> User_IsDemo u
               \<and> file = Some f \<and> User_ID u = File_UserID f))
   \<and> (CanUpdateTag ctx tag = Return True \<longrightarrow>
        (\<exists>u t. UserFromContext ctx = Some u \<and> \<not> User_IsDemo u
               \<and> tag = Some t \<and> User_ID u = Tag_UserID t))
   \<and> (CanUpdateActor ctx actor = Return True \<longrightarrow>
        (\<exists>u a. UserFromContext ctx = Some u \<and> \<not> User_IsDemo u
               \<and> actor = Some a \<and> User_ID u = Actor_UserID a))"
proof -
  have "CanUpdateFile ctx file = Return True \<longrightarrow>
        (\<exists>u f. UserFromContext ctx = Some u \<and> \<not> User_IsDemo u
               \<and> file = Some f \<and> User_ID u = File_UserID f)"
    unfolding CanUpdateFile_permits by auto
  moreover have "CanUpdateTag ctx tag = Return True \<longrightarrow>
        (\<exists>u t. UserFromContext ctx = Some u \<and> \<not> User_IsDemo u
               \<and> tag = Some t \<and> User_ID u = Tag_UserID t)"
    unfolding CanUpdateTag_permits by auto
  moreover have "CanUpdateActor ctx actor = Return True \<longrightarrow>
        (\<exists>u a. UserFromContext ctx = Some u \<and> \<not> User_IsDemo u
               \<and> actor = Some a \<and> User_ID u = Actor_UserID a)"
    unfolding CanUpdateActor_permits by auto
  ultimately show ?thesis
    by (simp add: CanUpdateFile_demo CanUpdateTag_demo CanUpdateActor_demo)
qed

text \<open>
  The demo identity is denied on the file, tag and actor it owns; \<open>alice\<close> is permitted
  on hers, and the theorem returns her as the owner.
\<close>

theorem CanUpdate_demo_denied_owner_only_witness:
  "User_IsDemo demo_user \<and> File_UserID (file_of ''demo'') = User_ID demo_user
   \<and> CanUpdateFile (NewContextWithUser [] (Some demo_user)) (Some (file_of ''demo'')) = Return False
   \<and> CanUpdateTag (NewContextWithUser [] (Some demo_user)) (Some (tag_of ''demo'')) = Return False
   \<and> CanUpdateActor (NewContextWithUser [] (Some demo_user)) (Some (actor_of ''demo'')) = Return False
   \<and> CanUpdateFile (NewContextWithUser [] (Some alice)) (Some (file_of ''alice'')) = Return True
   \<and> CanUpdateTag (NewContextWithUser [] (Some alice)) (Some (tag_of ''alice'')) = Return True
   \<and> CanUpdateActor (NewContextWithUser [] (Some alice)) (Some (actor_of ''alice'')) = Return True
   \<and> \<not> User_IsDemo alice \<and> User_ID alice = File_UserID (file_of ''alice'')"
proof -
  have permitted:
    "CanUpdateFile (NewContextWithUser [] (Some alice)) (Some (file_of ''alice'')) = Return True"
    "CanUpdateTag (NewContextWithUser [] (Some alice)) (Some (tag_of ''alice'')) = Return True"
    "CanUpdateActor (NewContextWithUser [] (Some alice)) (Some (actor_of ''alice'')) = Return True"
    by (simp_all add: CanUpdateFile_def CanUpdateTag_def CanUpdateActor_def UserIDFromContext_def
        alice_def file_of_def tag_of_def actor_of_def)
  have demo: "UserFromContext (NewContextWithUser [] (Some demo_user)) = Some demo_user
              \<and> User_IsDemo demo_user"
    by (simp add: demo_user_def)
  from CanUpdate_demo_denied_owner_only
         [of "NewContextWithUser [] (Some demo_user)" "Some (file_of ''demo'')"
             "Some (tag_of ''demo'')" "Some (actor_of ''demo'')"] demo
  have denied:
    "CanUpdateFile (NewContextWithUser [] (Some demo_user)) (Some (file_of ''demo'')) = Return False
     \<and> CanUpdateTag (NewContextWithUser [] (Some demo_user)) (Some (tag_of ''demo'')) = Return False
     \<and> CanUpdateActor (NewContextWithUser [] (Some demo_user)) (Some (actor_of ''demo'')) = Return False"
    by blast
  from CanUpdate_demo_denied_owner_only
         [of "NewContextWithUser [] (Some alice)" "Some (file_of ''alice'')"
             "Some (tag_of ''alice'')" "Some (actor_of ''alice'')"] permitted
  have "\<not> User_IsDemo alice \<and> User_ID alice = File_UserID (file_of ''alice'')"
    by auto
  with permitted denied show ?thesis
    by (simp add: demo_user_def file_of_def)
qed

section \<open>Random bytes\<close>

text \<open>
  The guard is \<open>n < -1\<close>: at \<open>n = -1\<close> the call reaches \<open>make\<close>, which panics.
\<close>

lemma GenerateRandomBytes_minus_one:
  "GenerateRandomBytes rand_Read (- 1) = Panic"
  by (simp add: GenerateRandomBytes_def make_bytes_def)

text \<open>
  C7, as the specification states it, fails on the code: at \<open>n = -2\<close> the error is made
  with the code \<open>EINTERNAL\<close>, not with the invalid-argument code \<open>EINVALID\<close>.
\<close>

theorem GenerateRandomBytes_error_code_counterexample:
  "GenerateRandomBytes zero_rand (- 2)
     = Return ([], Some (Error EINTERNAL ''Length must be a positive int.''))
   \<and> ErrorCode (Some (Error EINTERNAL ''Length must be a positive int.'')) \<noteq> EINVALID"
  by (simp add: GenerateRandomBytes_def NewError_def EINTERNAL_def EINVALID_def)

text \<open>
  C7, amended: for every \<open>n < -1\<close>, whatever the random source,
  \<open>GenerateRandomBytes\<close> returns no bytes and an error of code \<open>EINTERNAL\<close>, with the
  message \<open>Length must be a positive int.\<close>
\<close>

theorem GenerateRandomBytes_below_minus_one:
  assumes "n < - 1"
  shows "GenerateRandomBytes rand_Read n
           = Return ([], Some (Error EINTERNAL ''Length must be a positive int.''))
         \<and> ErrorCode (Some (Error EINTERNAL ''Length must be a positive int.'')) = EINTERNAL"
  using assms by (simp add: GenerateRandomBytes_def NewError_def)

theorem GenerateRandomBytes_below_minus_one_witness:
  "(- 10 :: int) < - 1
   \<and> GenerateRandomBytes zero_rand (- 10)
       = Return ([], Some (Error EINTERNAL ''Length must be a positive int.''))
   \<and> ErrorCode (Some (Error EINTERNAL ''Length must be a positive int.'')) = EINTERNAL"
  using GenerateRandomBytes_below_minus_one [of "- 10" zero_rand] by simp

section \<open>The session middleware\<close>

lemma authenticate_calls_next:
  "authenticate s next r = next (authenticate s (\<lambda>x. x) r)"
  by (simp add: authenticate_def Let_def split: option.splits prod.splits)

lemma authenticate_no_session_cookie:
  "Cookie r ''Session'' = None \<Longrightarrow> authenticate s next r = next r"
  by (simp add: authenticate_def)

lemma authenticate_no_token_cookie:
  "Cookie r ''Token'' = None \<Longrightarrow> authenticate s next r = next r"
  by (simp add: authenticate_def split: option.splits)

lemma authenticate_no_session:
  assumes "Cookie r ''Session'' = Some sid" and "Cookie r ''Token'' = Some tok"
    and "FindSessionForToken s (Request_Context r) sid tok = (session, err)"
    and "session = None \<or> err \<noteq> None"
  shows "authenticate s next r = next r"
  using assms by (auto simp: authenticate_def split: option.splits)

lemma authenticate_no_user:
  assumes "Cookie r ''Session'' = Some sid" and "Cookie r ''Token'' = Some tok"
    and "FindSessionForToken s (Request_Context r) sid tok = (Some session, None)"
    and "FindUserByID s (Request_Context r) (Session_UserID session) = (user, err)"
    and "user = None \<or> err \<noteq> None"
  shows "authenticate s next r = next r"
  using assms by (auto simp: authenticate_def split: option.splits)

lemma authenticate_identified:
  assumes "Cookie r ''Session'' = Some sid" and "Cookie r ''Token'' = Some tok"
    and "FindSessionForToken s (Request_Context r) sid tok = (Some session, None)"
    and "FindUserByID s (Request_Context r) (Session_UserID session) = (Some user, None)"
  shows "authenticate s next r =
           next (r\<lparr>Request_Context :=
                     NewContextWithUser (NewContextWithSession (Request_Context r) (Some session))
                       (Some user)\<rparr>)"
  using assms by (simp add: authenticate_def WithContext_def)

lemma authenticate_changed:
  assumes "authenticate s (\<lambda>x. x) r \<noteq> r"
  shows "\<exists>sid tok session user.
           Cookie r ''Session'' = Some sid \<and> Cookie r ''Token'' = Some tok
           \<and> FindSessionForToken s (Request_Context r) sid tok = (Some session, None)
           \<and> FindUserByID s (Request_Context r) (Session_UserID session) = (Some user, None)"
  using assms by (auto simp: authenticate_def split: option.splits prod.splits)

text \<open>
  C9: \<open>authenticate\<close> never answers the request itself: it always hands a request to the
  next handler and returns what that handler returns. When the \<open>Session\<close> or the \<open>Token\<close>
  cookie is absent, when the session store returns no session or an error, or when the
  user store returns no user or an error for the session's owner, the request handed on
  is the incoming one, unchanged, so nothing is injected and no error is passed on. The
  request handed on differs from the incoming one only when all lookups succeed, and
  then it carries that session and that user.
\<close>

theorem authenticate_fail_open:
  "authenticate s next r = next (authenticate s (\<lambda>x. x) r)
   \<and> (Cookie r ''Session'' = None \<or> Cookie r ''Token'' = None
        \<longrightarrow> authenticate s next r = next r)
   \<and> (\<forall>sid tok session err.
         Cookie r ''Session'' = Some sid \<and> Cookie r ''Token'' = Some tok
         \<and> FindSessionForToken s (Request_Context r) sid tok = (session, err)
         \<and> (session = None \<or> err \<noteq> None)
         \<longrightarrow> authenticate s next r = next r)
   \<and> (\<forall>sid tok session user err.
         Cookie r ''Session'' = Some sid \<and> Cookie r ''Token'' = Some tok
         \<and> FindSessionForToken s (Request_Context r) sid tok = (Some session, None)
         \<and> FindUserByID s (Request_Context r) (Session_UserID session) = (user, err)
         \<and> (user = None \<or> err \<noteq> None)
         \<longrightarrow> authenticate s next r = next r)
   \<and> (authenticate s (\<lambda>x. x) r \<noteq> r \<longrightarrow>
        (\<exists>sid tok session user.
           Cookie r ''Session'' = Some sid \<and> Cookie r ''Token'' = Some tok
           \<and> FindSessionForToken s (Request_Context r) sid tok = (Some session, None)
           \<and> FindUserByID s (Request_Context r) (Session_UserID session) = (Some user, None)
           \<and> SessionFromContext (Request_Context (authenticate s (\<lambda>x. x) r)) = Some session
           \<and> UserFromContext (Request_Context (authenticate s (\<lambda>x. x) r)) = Some user))"
proof (intro conjI allI impI)
  show "authenticate s next r = next (authenticate s (\<lambda>x. x) r)"
    by (rule authenticate_calls_next)
next
  assume "Cookie r ''Session'' = None \<or> Cookie r ''Token'' = None"
  then show "authenticate s next r = next r"
    using authenticate_no_session_cookie authenticate_no_token_cookie by blast
next
  fix sid tok session err
  assume "Cookie r ''Session'' = Some sid \<and> Cookie r ''Token'' = Some tok
          \<and> FindSessionForToken s (Request_Context r) sid tok = (session, err)
          \<and> (session = None \<or> err \<noteq> None)"
  then show "authenticate s next r = next r"
    using authenticate_no_session by blast
next
  fix sid tok session user err
  assume "Cookie r ''Session'' = Some sid \<and> Cookie r ''Token'' = Some tok
          \<and> FindSessionForToken s (Request_Context r) sid tok = (Some session, None)
          \<and> FindUserByID s (Request_Context r) (Session_UserID session) = (user, err)
          \<and> (user = None \<or> err \<noteq> None)"
  then show "authenticate s next r = next r"
    using authenticate_no_user by blast
next
  assume changed: "authenticate s (\<lambda>x. x) r \<noteq> r"
  from authenticate_changed [OF changed] obtain sid tok session user where
    found: "Cookie r ''Session'' = Some sid" "Cookie r ''Token'' = Some tok"
      "FindSessionForToken s (Request_Context r) sid tok = (Some session, None)"
      "FindUserByID s (Request_Context r) (Session_UserID session) = (Some user, None)"
    by blast
  then have "authenticate s (\<lambda>x. x) r =
               r\<lparr>Request_Context :=
                   NewContextWithUser (NewContextWithSession (Request_Context r) (Some session))
                     (Some user)\<rparr>"
    by (rule authenticate_identified)
  with found show "\<exists>sid tok session user.
           Cookie r ''Session'' = Some sid \<and> Cookie r ''Token'' = Some tok
           \<and> FindSessionForToken s (Request_Context r) sid tok = (Some session, None)
           \<and> FindUserByID s (Request_Context r) (Session_UserID session) = (Some user, None)
           \<and> SessionFromContext (Request_Context (authenticate s (\<lambda>x. x) r)) = Some session
           \<and> UserFromContext (Request_Context (authenticate s (\<lambda>x. x) r)) = Some user"
    by simp
qed

text \<open>
  Runs on the test server: no cookie at all, no token cookie, a token the store does not
  know, a session whose user is gone (each handed on unchanged, here to a handler that
  reports the acting user's id), and a good session, which reaches the handler as \<open>alice\<close>.
\<close>

theorem authenticate_fail_open_witness:
  "authenticate test_server (\<lambda>x. UserIDFromContext (Request_Context x)) (request_with []) = ''''
   \<and> authenticate test_server (\<lambda>x. UserIDFromContext (Request_Context x))
        (request_with [(''Session'', ''s1'')]) = ''''
   \<and> authenticate test_server (\<lambda>x. UserIDFromContext (Request_Context x))
        (request_with [(''Session'', ''s1''), (''Token'', ''wrong'')]) = ''''
   \<and> authenticate test_server (\<lambda>x. UserIDFromContext (Request_Context x))
        (request_with [(''Session'', ''s2''), (''Token'', ''tok-2'')]) = ''''
   \<and> authenticate test_server (\<lambda>x. x)
        (request_with [(''Session'', ''s1''), (''Token'', ''tok-1'')])
       \<noteq> request_with [(''Session'', ''s1''), (''Token'', ''tok-1'')]
   \<and> UserFromContext (Request_Context (authenticate test_server (\<lambda>x. x)
        (request_with [(''Session'', ''s1''), (''Token'', ''tok-1'')]))) = Some alice
   \<and> SessionFromContext (Request_Context (authenticate test_server (\<lambda>x. x)
        (request_with [(''Session'', ''s1''), (''Token'', ''tok-1'')]))) = Some alice_session"
proof -
  let ?who = "\<lambda>x. UserIDFromContext (Request_Context x)"
  let ?good = "request_with [(''Session'', ''s1''), (''Token'', ''tok-1'')]"
  have anon: "?who (request_with cs) = ''''" for cs
    by (simp add: request_with_def UserIDFromContext_def)
  have c0: "Cookie (request_with []) ''Session'' = None"
    by (simp add: Cookie_def request_with_def)
  have c1: "Cookie (request_with [(''Session'', ''s1'')]) ''Token'' = None"
    by (simp add: Cookie_def request_with_def)
  have c2: "Cookie (request_with [(''Session'', ''s1''), (''Token'', ''wrong'')]) ''Session'' = Some ''s1''
            \<and> Cookie (request_with [(''Session'', ''s1''), (''Token'', ''wrong'')]) ''Token'' = Some ''wrong''
            \<and> FindSessionForToken test_server
                 (Request_Context (request_with [(''Session'', ''s1''), (''Token'', ''wrong'')]))
                 ''s1'' ''wrong'' = (None, Some (NewError ENOTFOUND ''Session not found.''))"
    by (simp add: Cookie_def request_with_def test_server_def)
  have c3: "Cookie (request_with [(''Session'', ''s2''), (''Token'', ''tok-2'')]) ''Session'' = Some ''s2''
            \<and> Cookie (request_with [(''Session'', ''s2''), (''Token'', ''tok-2'')]) ''Token'' = Some ''tok-2''
            \<and> FindSessionForToken test_server
                 (Request_Context (request_with [(''Session'', ''s2''), (''Token'', ''tok-2'')]))
                 ''s2'' ''tok-2'' = (Some orphan_session, None)
            \<and> FindUserByID test_server
                 (Request_Context (request_with [(''Session'', ''s2''), (''Token'', ''tok-2'')]))
                 (Session_UserID orphan_session) = (None, Some (NewError ENOTFOUND ''User not found.''))"
    by (simp add: Cookie_def request_with_def test_server_def orphan_session_def)
  have good: "authenticate test_server (\<lambda>x. x) ?good \<noteq> ?good"
    by (simp add: authenticate_def Cookie_def request_with_def test_server_def
        alice_session_def WithContext_def NewContextWithSession_def NewContextWithUser_def
        NewContextWithRequestID_def WithValue_def)
  have a0: "authenticate test_server ?who (request_with []) = ''''"
    using authenticate_fail_open [of test_server ?who "request_with []"] c0 anon by simp
  have a1: "authenticate test_server ?who (request_with [(''Session'', ''s1'')]) = ''''"
    using authenticate_fail_open [of test_server ?who "request_with [(''Session'', ''s1'')]"]
      c1 anon by simp
  have a2: "authenticate test_server ?who
              (request_with [(''Session'', ''s1''), (''Token'', ''wrong'')]) = ''''"
    using authenticate_fail_open
      [of test_server ?who "request_with [(''Session'', ''s1''), (''Token'', ''wrong'')]"]
      c2 anon by metis
  have a3: "authenticate test_server ?who
              (request_with [(''Session'', ''s2''), (''Token'', ''tok-2'')]) = ''''"
    using authenticate_fail_open
      [of test_server ?who "request_with [(''Session'', ''s2''), (''Token'', ''tok-2'')]"]
      c3 anon by metis
  from authenticate_fail_open [of test_server "\<lambda>x. x" ?good] good
  obtain sid tok session user where
    f: "Cookie ?good ''Session'' = Some sid" "Cookie ?good ''Token'' = Some tok"
      "FindSessionForToken test_server (Request_Context ?good) sid tok = (Some session, None)"
      "FindUserByID test_server (Request_Context ?good) (Session_UserID session) = (Some user, None)"
      "SessionFromContext (Request_Context (authenticate test_server (\<lambda>x. x) ?good)) = Some session"
      "UserFromContext (Request_Context (authenticate test_server (\<lambda>x. x) ?good)) = Some user"
    by blast
  from f(1,2) have "sid = ''s1''" "tok = ''tok-1''"
    by (simp_all add: Cookie_def request_with_def)
  with f(3) have s: "session = alice_session"
    by (simp add: test_server_def)
  with f(4) have "user = alice"
    by (simp add: test_server_def alice_session_def)
  with s f(5,6) a0 a1 a2 a3 good show ?thesis
    by simp
qed

section \<open>The library functions\<close>

subsection \<open>Base64: decoding what was encoded\<close>

lemma decodeMap_encodeURL: "\<forall>n \<in> set [0..<64]. decodeMap (encodeURL ! n) = of_nat n"
  by code_simp

lemma and63: "unat ((v :: 64 word) AND 0x3F) < 64"
proof -
  have "unat (v AND 0x3F) \<le> unat (0x3F :: 64 word)"
    by (rule word_and_le1 [THEN word_le_nat_alt [THEN iffD1]])
  then show ?thesis by simp
qed

lemma decodeMap_encode6: "decodeMap (encode6 v) = ucast (v AND 0x3F)"
  using decodeMap_encodeURL and63 [of v] by (simp add: encode6_def)

lemma and_3F: "(x :: 64 word) AND 0x3F = take_bit 6 x"
  using take_bit_eq_mask [of 6 x] by (simp add: mask_eq_exp_minus_1)

lemma ucast_take6: "ucast (ucast (take_bit 6 (x :: 64 word)) :: byte) = take_bit 6 x"
  by (rule bit_word_eqI) (auto simp: bit_simps)

lemma regroup: "push_bit 18 (take_bit 6 (drop_bit 18 (v :: 64 word)))
         OR push_bit 12 (take_bit 6 (drop_bit 12 v))
         OR push_bit 6 (take_bit 6 (drop_bit 6 v))
         OR take_bit 6 v = take_bit 24 v"
proof (rule bit_word_eqI)
  fix n :: nat
  assume "n < LENGTH(64)"
  consider "n < 6" | "6 \<le> n" "n < 12" | "12 \<le> n" "n < 18" | "18 \<le> n" "n < 24" | "24 \<le> n"
    by linarith
  then show "bit (push_bit 18 (take_bit 6 (drop_bit 18 v))
         OR push_bit 12 (take_bit 6 (drop_bit 12 v))
         OR push_bit 6 (take_bit 6 (drop_bit 6 v))
         OR take_bit 6 v) n = bit (take_bit 24 v) n"
    by cases (auto simp: bit_simps)
qed

lemma bytes3:
  fixes a b c :: byte
  defines "val \<equiv> push_bit 16 (ucast a) OR push_bit 8 (ucast b) OR (ucast c :: 64 word)"
  shows "take_bit 24 val = val" "ucast (drop_bit 16 val) = a" "ucast (drop_bit 8 val) = b" "ucast val = c"
  unfolding val_def
  by (rule bit_word_eqI; auto simp: bit_simps dest: bit_imp_le_length)+


lemma bytes2:
  fixes a b :: byte
  defines "val \<equiv> push_bit 16 (ucast a) OR (push_bit 8 (ucast b) :: 64 word)"
  shows "push_bit 18 (take_bit 6 (drop_bit 18 val)) OR push_bit 12 (take_bit 6 (drop_bit 12 val))
           OR push_bit 6 (take_bit 6 (drop_bit 6 val)) = val"
    "ucast (drop_bit 16 val) = a" "ucast (drop_bit 8 val) = b"
proof -
  have "take_bit 6 val = 0"
    unfolding val_def by (rule bit_word_eqI) (auto simp: bit_simps)
  moreover have "take_bit 24 val = val"
    unfolding val_def by (rule bit_word_eqI) (auto simp: bit_simps dest: bit_imp_le_length)
  ultimately show "push_bit 18 (take_bit 6 (drop_bit 18 val)) OR push_bit 12 (take_bit 6 (drop_bit 12 val))
           OR push_bit 6 (take_bit 6 (drop_bit 6 val)) = val"
    using regroup [of val] by simp
  show "ucast (drop_bit 16 val) = a" "ucast (drop_bit 8 val) = b"
    unfolding val_def by (rule bit_word_eqI; auto simp: bit_simps dest: bit_imp_le_length)+
qed

lemma bytes1:
  fixes a :: byte
  defines "val \<equiv> (push_bit 16 (ucast a) :: 64 word)"
  shows "push_bit 18 (take_bit 6 (drop_bit 18 val)) OR push_bit 12 (take_bit 6 (drop_bit 12 val)) = val"
    "ucast (drop_bit 16 val) = a"
proof -
  have "take_bit 6 val = 0" "take_bit 6 (drop_bit 6 val) = 0"
    unfolding val_def by (rule bit_word_eqI; auto simp: bit_simps)+
  moreover have "take_bit 24 val = val"
    unfolding val_def by (rule bit_word_eqI) (auto simp: bit_simps dest: bit_imp_le_length)
  ultimately show "push_bit 18 (take_bit 6 (drop_bit 18 val)) OR push_bit 12 (take_bit 6 (drop_bit 12 val)) = val"
    using regroup [of val] by simp
  show "ucast (drop_bit 16 val) = a"
    unfolding val_def by (rule bit_word_eqI) (auto simp: bit_simps dest: bit_imp_le_length)
qed


lemma decodeMap_encode6_take: "ucast (decodeMap (encode6 v)) = take_bit 6 v"
  by (simp add: decodeMap_encode6 and_3F ucast_take6)

lemma decodeMap_encode6_valid: "decodeMap (encode6 v) \<noteq> 0xFF"
proof
  assume "decodeMap (encode6 v) = 0xFF"
  then have "bit (ucast (take_bit 6 v) :: byte) 7 = bit (0xFF :: byte) 7"
    by (simp add: decodeMap_encode6 and_3F)
  then show False
    by (simp add: bit_simps)
qed

lemma encode6_alphabet: "encode6 v \<in> set encodeURL"
  unfolding encode6_def by (rule nth_mem) (use and63 [of v] in \<open>simp add: encodeURL_def\<close>)

lemma Encode_chars: "c \<in> set (Encode b) \<Longrightarrow> \<exists>v. c = encode6 v"
  by (induction b rule: Encode.induct) (auto simp: Let_def)

lemma decode_values_alphabet:
  "(\<And>c. c \<in> set s \<Longrightarrow> decodeMap c \<noteq> 0xFF) \<Longrightarrow> decode_values s = Inr (map decodeMap s)"
  by (induction s) (simp_all add: Let_def)

lemma decode_values_Encode: "decode_values (Encode b) = Inr (map decodeMap (Encode b))"
  by (rule decode_values_alphabet) (use Encode_chars decodeMap_encode6_valid in blast)

lemma decode_quanta_4:
  assumes "take_bit 24 v = v"
  shows "decode_quanta (decodeMap (encode6 (drop_bit 18 v)) # decodeMap (encode6 (drop_bit 12 v))
            # decodeMap (encode6 (drop_bit 6 v)) # decodeMap (encode6 v) # ds)
         = and_then (decode_quanta ds)
             (\<lambda>dst. Inr (ucast (drop_bit 16 v) # ucast (drop_bit 8 v) # ucast v # dst))"
  by (simp only: decode_quanta.simps Let_def decodeMap_encode6_take regroup assms)

lemma decode_quanta_3:
  assumes "push_bit 18 (take_bit 6 (drop_bit 18 v)) OR push_bit 12 (take_bit 6 (drop_bit 12 v))
           OR push_bit 6 (take_bit 6 (drop_bit 6 v)) = v"
  shows "decode_quanta [decodeMap (encode6 (drop_bit 18 v)), decodeMap (encode6 (drop_bit 12 v)),
            decodeMap (encode6 (drop_bit 6 v))]
         = Inr [ucast (drop_bit 16 v), ucast (drop_bit 8 v)]"
  by (simp only: decode_quanta.simps Let_def decodeMap_encode6_take assms)

lemma decode_quanta_2:
  assumes "push_bit 18 (take_bit 6 (drop_bit 18 v)) OR push_bit 12 (take_bit 6 (drop_bit 12 v)) = v"
  shows "decode_quanta [decodeMap (encode6 (drop_bit 18 v)), decodeMap (encode6 (drop_bit 12 v))]
         = Inr [ucast (drop_bit 16 v)]"
  by (simp only: decode_quanta.simps Let_def decodeMap_encode6_take assms)

lemma decode_quanta_Encode: "decode_quanta (map decodeMap (Encode b)) = Inr b"
proof (induction b rule: Encode.induct)
  case (1 a b c src)
  let ?v = "push_bit 16 (ucast a) OR push_bit 8 (ucast b) OR (ucast c :: 64 word)"
  have "decode_quanta (map decodeMap (Encode (a # b # c # src)))
        = and_then (decode_quanta (map decodeMap (Encode src)))
            (\<lambda>dst. Inr (ucast (drop_bit 16 ?v) # ucast (drop_bit 8 ?v) # ucast ?v # dst))"
    by (simp only: Encode.simps Let_def list.map decode_quanta_4 [OF bytes3(1)])
  also have "\<dots> = Inr (ucast (drop_bit 16 ?v) # ucast (drop_bit 8 ?v) # ucast ?v # src)"
    by (simp only: "1.IH" and_then.simps)
  also have "\<dots> = Inr (a # b # c # src)"
    by (simp only: bytes3)
  finally show ?case .
next
  case (2 a b)
  let ?v = "push_bit 16 (ucast a) OR (push_bit 8 (ucast b) :: 64 word)"
  have "decode_quanta (map decodeMap (Encode [a, b])) = Inr [ucast (drop_bit 16 ?v), ucast (drop_bit 8 ?v)]"
    by (simp only: Encode.simps Let_def list.map decode_quanta_3 [OF bytes2(1)])
  then show ?case
    by (simp only: bytes2)
next
  case (3 a)
  let ?v = "push_bit 16 (ucast a) :: 64 word"
  have "decode_quanta (map decodeMap (Encode [a])) = Inr [ucast (drop_bit 16 ?v)]"
    by (simp only: Encode.simps Let_def list.map decode_quanta_2 [OF bytes1(1)])
  then show ?case
    by (simp only: bytes1)
next
  case 4
  show ?case by simp
qed

lemma DecodeString_Encode: "DecodeString (Encode b) = Inr b"
  by (simp add: DecodeString_def decode_values_Encode decode_quanta_Encode)

lemma Encode_no_dollar: "CHR ''$'' \<notin> set (Encode b)"
proof
  assume "CHR ''$'' \<in> set (Encode b)"
  then obtain v where v: "CHR ''$'' = encode6 v"
    using Encode_chars by blast
  have "CHR ''$'' \<notin> set encodeURL"
    by (simp add: encodeURL_def)
  with encode6_alphabet [of v] v show False
    by metis
qed

subsection \<open>Splitting, printing and scanning the fields of a key\<close>

lemma Split_nonempty: "Split s sep \<noteq> []"
  by (induction s) (auto split: list.splits)

lemma Split_no_sep: "sep \<notin> set a \<Longrightarrow> Split a sep = [a]"
  by (induction a) (auto split: list.splits)

lemma Split_at_sep: "sep \<notin> set a \<Longrightarrow> Split (a @ sep # s) sep = a # Split s sep"
  by (induction a) (auto split: list.splits)

lemma digit_nth: "d < 10 \<Longrightarrow> ''0123456789'' ! d \<in> set ''0123456789''"
  by (rule nth_mem) simp

lemma digit_value_nth: "d < 10 \<Longrightarrow> digit_value (''0123456789'' ! d) = d"
proof -
  have "\<forall>d \<in> set [0..<10]. digit_value (''0123456789'' ! d) = d"
    by code_simp
  then show "d < 10 \<Longrightarrow> digit_value (''0123456789'' ! d) = d"
    by simp
qed

lemma FormatUint_digits: "c \<in> set (FormatUint n) \<Longrightarrow> c \<in> set ''0123456789''"
proof (induction n rule: FormatUint.induct)
  case (1 n)
  show ?case
  proof (cases "n < 10")
    case True
    with "1.prems" digit_nth [of n] show ?thesis
      by (subst (asm) FormatUint.simps) simp
  next
    case False
    with "1.prems" "1.IH" digit_nth [of "n mod 10"] show ?thesis
      by (subst (asm) FormatUint.simps) auto
  qed
qed

lemma FormatUint_nonempty: "FormatUint n \<noteq> []"
  by (subst FormatUint.simps) simp

lemma FormatUint_value: "foldl (\<lambda>n c. n * 10 + digit_value c) 0 (FormatUint n) = n"
proof (induction n rule: FormatUint.induct)
  case (1 n)
  show ?case
  proof (cases "n < 10")
    case True
    then show ?thesis
      by (subst FormatUint.simps) (simp add: digit_value_nth)
  next
    case False
    with "1.IH" show ?thesis
      by (subst FormatUint.simps) (simp add: digit_value_nth)
  qed
qed

lemma SkipSpace_stays:
  "c \<noteq> CHR 0x0A \<Longrightarrow> space_width (c # s) = 0 \<Longrightarrow> SkipSpace (c # s) = Inr (c # s)"
  by (subst SkipSpace.simps) simp

lemma find_None_hd:
  assumes "\<And>e. e \<in> set es \<Longrightarrow> e \<noteq> [] \<and> hd e \<noteq> c"
  shows "find (\<lambda>e. take (length e) (c # s) = e) es = None"
  unfolding find_None_iff
proof clarify
  fix e
  assume e: "e \<in> set es" and eq: "take (length e) (c # s) = e"
  from assms [OF e] obtain x xs where "e = x # xs" and "x \<noteq> c"
    by (cases e) auto
  with eq show False
    by simp
qed

lemma space_encodings_hd:
  "e \<in> set space_encodings \<Longrightarrow> e \<noteq> [] \<and> of_char (hd e) \<ge> (0xC2 :: nat)"
  by (auto simp: space_encodings_def)

lemma space_width_ascii:
  assumes "of_char c < (0x80 :: nat)" and "\<not> isSpace c"
  shows "space_width (c # s) = 0"
proof -
  have "find (\<lambda>e. take (length e) (c # s) = e) space_encodings = None"
  proof (rule find_None_hd)
    fix e assume "e \<in> set space_encodings"
    from space_encodings_hd [OF this] assms(1) show "e \<noteq> [] \<and> hd e \<noteq> c"
      by auto
  qed
  with assms(2) show ?thesis
    by (simp add: space_width_def)
qed

lemma digit_ascii: "c \<in> set ''0123456789'' \<Longrightarrow> of_char c < (0x80 :: nat) \<and> \<not> isSpace c \<and> c \<noteq> CHR 0x0A"
  by (auto simp: isSpace_def)

lemma SkipSpace_digit: "c \<in> set ''0123456789'' \<Longrightarrow> SkipSpace (c # s) = Inr (c # s)"
  using digit_ascii [of c] by (intro SkipSpace_stays space_width_ascii) auto

lemma SkipSpace_x: "SkipSpace ''x'' = Inr ''x''"
  by (intro SkipSpace_stays space_width_ascii) (simp_all add: isSpace_def)

lemma FormatUint_hd: "\<exists>c s. FormatUint n = c # s \<and> c \<in> set ''0123456789''"
proof -
  obtain c s where "FormatUint n = c # s"
    using FormatUint_nonempty [of n] by (cases "FormatUint n") auto
  moreover from this have "c \<in> set ''0123456789''"
    using FormatUint_digits [of c n] by simp
  ultimately show ?thesis by blast
qed

lemma scanNumber_FormatUint:
  assumes "stops rest"
  shows "scanNumber (FormatUint n @ rest) = Inr (FormatUint n, rest)"
proof -
  have all: "\<forall>c \<in> set (FormatUint n). c \<in> set ''0123456789''"
    using FormatUint_digits [of _ n] by auto
  have tw: "takeWhile (\<lambda>c. c \<in> set ''0123456789'') rest = []"
    and dw: "dropWhile (\<lambda>c. c \<in> set ''0123456789'') rest = rest"
    using assms by (auto simp: stops_def split: list.splits)
  have "takeWhile (\<lambda>c. c \<in> set ''0123456789'') (FormatUint n @ rest) = FormatUint n"
    using all tw by (simp add: takeWhile_append2)
  moreover have "dropWhile (\<lambda>c. c \<in> set ''0123456789'') (FormatUint n @ rest) = rest"
    using all dw by (simp add: dropWhile_append2)
  ultimately show ?thesis
    using FormatUint_nonempty [of n] by (simp add: scanNumber_def notEOF_def Let_def)
qed

lemma ParseUint_FormatUint: "n < 2 ^ 64 \<Longrightarrow> ParseUint (FormatUint n) = Inr n"
  using FormatUint_digits [of _ n] FormatUint_nonempty [of n]
  by (auto simp: ParseUint_def FormatUint_value Let_def)

lemma scanUint_FormatUint:
  assumes "stops rest" and "n < 2 ^ bitSize" and "bitSize \<le> 64"
  shows "scanUint bitSize (FormatUint n @ rest) = Inr (n, rest)"
proof -
  obtain c s where cs: "FormatUint n = c # s" "c \<in> set ''0123456789''"
    using FormatUint_hd by blast
  then have skip: "SkipSpace (FormatUint n @ rest) = Inr (FormatUint n @ rest)"
    using SkipSpace_digit [of c "s @ rest"] by simp
  have "(2::nat) ^ bitSize \<le> 2 ^ 64"
    using assms(3) by (rule power_increasing) simp
  with assms(2) have "n < 2 ^ 64" by linarith
  then show ?thesis
    using assms(2) FormatUint_nonempty [of n]
    by (simp add: scanUint_def skip notEOF_def scanNumber_FormatUint [OF assms(1)] ParseUint_FormatUint)
qed

lemma literal_prefix: "literal fs (fs @ s) = Inr s"
  by (induction fs) simp_all

lemma Sscanf_mtp_FormatUint:
  assumes "m < 2 ^ 32" and "t < 2 ^ 32" and "p < 2 ^ 8"
  shows "Sscanf_mtp (''m='' @ FormatUint m @ '',t='' @ FormatUint t @ '',p='' @ FormatUint p)
         = Inr (of_nat m, of_nat t, of_nat p)"
proof -
  obtain c1 s1 where m: "FormatUint m = c1 # s1" "c1 \<in> set ''0123456789''"
    using FormatUint_hd by blast
  obtain c2 s2 where t: "FormatUint t = c2 # s2" "c2 \<in> set ''0123456789''"
    using FormatUint_hd by blast
  obtain c3 s3 where p: "FormatUint p = c3 # s3" "c3 \<in> set ''0123456789''"
    using FormatUint_hd by blast
  have k1: "SkipSpace (FormatUint m @ r) = Inr (FormatUint m @ r)" for r
    using SkipSpace_digit [OF m(2)] m(1) by simp
  have k2: "SkipSpace (FormatUint t @ r) = Inr (FormatUint t @ r)" for r
    using SkipSpace_digit [OF t(2)] t(1) by simp
  have k3: "SkipSpace (FormatUint p @ r) = Inr (FormatUint p @ r)" for r
    using SkipSpace_digit [OF p(2)] p(1) by simp
  have k4: "SkipSpace (FormatUint p) = Inr (FormatUint p)"
    using k3 [of "[]"] by simp
  have st: "stops ('',t='' @ r)" "stops ('',p='' @ r)" "stops []" for r
    by (simp_all add: stops_def)
  have l1: "literal ''m='' (''m='' @ r) = Inr r" for r
    by (rule literal_prefix)
  have l2: "literal '',t='' ('',t='' @ r) = Inr r" for r
    by (rule literal_prefix)
  have l3: "literal '',p='' ('',p='' @ r) = Inr r" for r
    by (rule literal_prefix)
  have u1: "scanUint 32 (FormatUint m @ '',t='' @ r) = Inr (m, '',t='' @ r)" for r
    by (rule scanUint_FormatUint [OF st(1) assms(1)]) simp
  have u2: "scanUint 32 (FormatUint t @ '',p='' @ r) = Inr (t, '',p='' @ r)" for r
    by (rule scanUint_FormatUint [OF st(2) assms(2)]) simp
  have u3: "scanUint 8 (FormatUint p) = Inr (p, [])"
    using scanUint_FormatUint [OF st(3) assms(3)] by simp
  show ?thesis
    unfolding Sscanf_mtp_def
    by (simp only: l1 l2 l3 k1 k2 k3 k4 u1 u2 u3 and_then.simps prod.case)
qed

lemma Sscanf_v_Version: "Sscanf_v (''v='' @ FormatInt argon2_Version) = Inr argon2_Version"
  by (simp add: Sscanf_v_def FormatInt_def argon2_Version_def FormatUint.simps scanInt_def
      scanNumber_def notEOF_def ParseInt_def SkipSpace_digit digit_value_def Let_def)

lemma FormatInt_no_dollar: "CHR ''$'' \<notin> set (FormatInt i)"
  using FormatUint_digits [of "CHR ''$''"] by (auto simp: FormatInt_def)

lemma Split_Sprintf_key:
  assumes "CHR ''$'' \<notin> set salt" and "CHR ''$'' \<notin> set hash"
  shows "Split (Sprintf_key v m t p salt hash) CHR ''$''
         = ['''', ''argon2id'', ''v='' @ FormatInt v,
            ''m='' @ FormatInt m @ '',t='' @ FormatInt t @ '',p='' @ FormatInt p, salt, hash]"
proof -
  let ?vs = "''v='' @ FormatInt v"
  let ?ps = "''m='' @ FormatInt m @ '',t='' @ FormatInt t @ '',p='' @ FormatInt p"
  have key: "Sprintf_key v m t p salt hash
             = [] @ CHR ''$'' # (''argon2id'' @ CHR ''$'' # (?vs @ CHR ''$'' # (?ps @ CHR ''$'' #
                 (salt @ CHR ''$'' # hash))))"
    by (simp add: Sprintf_key_def)
  have vs: "CHR ''$'' \<notin> set ?vs" and ps: "CHR ''$'' \<notin> set ?ps"
    using FormatInt_no_dollar by simp_all
  have a: "CHR ''$'' \<notin> set ''argon2id''" and e: "CHR ''$'' \<notin> set ''''"
    by simp_all
  show ?thesis
    unfolding key
    by (simp only: Split_at_sep [OF e] Split_at_sep [OF a] Split_at_sep [OF vs]
        Split_at_sep [OF ps] Split_at_sep [OF assms(1)] Split_no_sep [OF assms(2)])
qed

lemma FormatInt_uint: "FormatInt (uint (w :: 'a::len word)) = FormatUint (unat w)"
  by (simp add: FormatInt_def)

lemma key_fields_Sprintf_key:
  "key_fields (Sprintf_key argon2_Version (uint (memory :: uint32)) (uint (time :: uint32))
                 (uint (threads :: uint8)) (Encode salt) (Encode hash))
   = Some (memory, time, threads, salt, hash)"
proof -
  let ?key = "Sprintf_key argon2_Version (uint memory) (uint time) (uint threads)
                (Encode salt) (Encode hash)"
  have ne: "?key \<noteq> ''''"
    by (simp add: Sprintf_key_def)
  have split: "Split ?key CHR ''$''
         = ['''', ''argon2id'', ''v='' @ FormatInt argon2_Version,
            ''m='' @ FormatUint (unat memory) @ '',t='' @ FormatUint (unat time)
              @ '',p='' @ FormatUint (unat threads), Encode salt, Encode hash]"
    by (simp only: Split_Sprintf_key [OF Encode_no_dollar Encode_no_dollar] FormatInt_uint)
  have mtp: "Sscanf_mtp (''m='' @ FormatUint (unat memory) @ '',t='' @ FormatUint (unat time)
              @ '',p='' @ FormatUint (unat threads)) = Inr (memory, time, threads)"
  proof -
    have "unat memory < 2 ^ 32" "unat time < 2 ^ 32" "unat threads < 2 ^ 8"
      using unsigned_less [of memory, where ?'a = nat] unsigned_less [of time, where ?'a = nat]
        unsigned_less [of threads, where ?'a = nat] by simp_all
    from Sscanf_mtp_FormatUint [OF this] show ?thesis by simp
  qed
  show ?thesis
    unfolding key_fields_def
    by (simp add: ne split Sscanf_v_Version mtp DecodeBase64String_def DecodeString_Encode
        del: append.simps)
qed

lemma VerifyPassword_key_fields:
  assumes "password \<noteq> ''''" and "key_fields key = Some (memory, time, threads, salt, hash)"
  shows "VerifyPassword IDKey password key
         = (case IDKey (bytes_of password) salt time memory threads (of_nat (length hash)) of
              Panic \<Rightarrow> Panic
            | Return control \<Rightarrow>
                if control = hash then Return None
                else Return (Some (Error EINVALID ''Hash not equal password.'')))"
  using assms
  by (auto simp: VerifyPassword_def key_fields_def Let_def ConstantTimeCompare_def NewError_def
      split: if_splits sum.splits outcome.splits)

subsection \<open>Errors of the libraries\<close>

lemma library_error_and_then:
  "library_error r \<Longrightarrow> (\<And>x. library_error (f x)) \<Longrightarrow> library_error (and_then r f)"
  by (cases r) (simp_all add: library_error_def)

lemma library_error_Inr [simp]: "library_error (Inr x)"
  by (simp add: library_error_def)

lemma library_error_Foreign [simp]: "library_error (Inl (Foreign m))"
  by (simp add: library_error_def)

lemma library_errorD: "library_error r \<Longrightarrow> r = Inl e \<Longrightarrow> \<exists>m. e = Foreign m"
  by (cases e) (simp_all add: library_error_def)

lemma library_error_SkipSpace: "library_error (SkipSpace s)"
  by (induction s rule: SkipSpace.induct) (subst SkipSpace.simps, simp add: library_error_def)

lemma library_error_literal: "library_error (literal fs s)"
  by (induction fs s rule: literal.induct) simp_all

lemma library_error_scanNumber: "library_error (scanNumber s)"
  by (simp add: scanNumber_def notEOF_def Let_def)

lemma library_error_ParseUint: "library_error (ParseUint tok)"
  by (simp add: ParseUint_def Let_def)

lemma library_error_ParseInt: "library_error (ParseInt tok)"
  by (simp add: ParseInt_def Let_def)

lemma library_error_notEOF: "library_error (notEOF s)"
  by (simp add: notEOF_def)

lemma library_error_scanUint: "library_error (scanUint bitSize s)"
  unfolding scanUint_def
  by (intro library_error_and_then library_error_SkipSpace library_error_notEOF
      library_error_scanNumber) (auto intro!: library_error_and_then library_error_ParseUint)

lemma library_error_scanInt: "library_error (scanInt s)"
  unfolding scanInt_def Let_def
  by (intro library_error_and_then library_error_SkipSpace library_error_notEOF
      library_error_scanNumber) (auto intro!: library_error_and_then library_error_ParseInt)

lemma library_error_Sscanf_v: "library_error (Sscanf_v str)"
  unfolding Sscanf_v_def
  by (intro library_error_and_then library_error_SkipSpace library_error_literal
      library_error_scanInt) auto

lemma library_error_Sscanf_mtp: "library_error (Sscanf_mtp str)"
  unfolding Sscanf_mtp_def
  by (auto intro!: library_error_and_then library_error_SkipSpace library_error_literal
      library_error_scanUint)

lemma library_error_decode_values: "library_error (decode_values s)"
  by (induction s) (auto simp: Let_def intro!: library_error_and_then)

lemma library_error_decode_quanta: "library_error (decode_quanta ds)"
  by (induction ds rule: decode_quanta.induct) (auto simp: Let_def intro!: library_error_and_then)

lemma library_error_DecodeBase64String: "library_error (DecodeBase64String s)"
  unfolding DecodeBase64String_def DecodeString_def
  by (intro library_error_and_then library_error_decode_values library_error_decode_quanta)

lemma VerifyPassword_malformed:
  assumes "key_fields key = None"
  shows "\<exists>e. VerifyPassword IDKey password key = Return (Some e)
             \<and> e \<noteq> Error EINVALID ''Hash not equal password.''"
proof -
  note lib = library_errorD [OF library_error_Sscanf_v] library_errorD [OF library_error_Sscanf_mtp]
    library_errorD [OF library_error_DecodeBase64String]
  from assms show ?thesis
    unfolding VerifyPassword_def key_fields_def Let_def NewError_def
    by (auto split: if_splits sum.splits dest: lib)
qed

section \<open>Hashing and verification\<close>

lemma Encode_salt: "Encode (bytes_of ''salt'') = ''c2FsdA''"
  by code_simp

lemma Encode_test_digest: "Encode test_digest = ''OWwmnKFemKE2ILjM60j1so1oRXDFJYqvOiYlZTByvuU''"
  by code_simp

lemma Sprintf_key_fixed:
  "Sprintf_key argon2_Version 65536 1 4 salt hash
   = ''$argon2id$v=19$m=65536,t=1,p=4$'' @ salt @ ''$'' @ hash"
  by (simp add: Sprintf_key_def argon2_Version_def FormatInt_def FormatUint.simps)

lemma HashPassword_Return:
  assumes "password \<noteq> ''''" and "salt \<noteq> ''''"
    and "IDKey (bytes_of password) (bytes_of salt) 1 65536 4 32 = Return hash"
  shows "HashPassword IDKey password salt
         = Return (Sprintf_key argon2_Version (uint (65536 :: uint32)) (uint (1 :: uint32))
                     (uint (4 :: uint8)) (Encode (bytes_of salt)) (Encode hash), None)"
  using assms
  by (simp add: HashPassword_def ArgonTime_def ArgonMemory_def ArgonThreads_def ArgonKeyLen_def
      EncodeToBase64String_def)

text \<open>
  C3: for every non-empty password and every non-empty salt, \<open>HashPassword\<close> returns a
  key and \<open>VerifyPassword\<close> accepts the password against that key. The library's
  \<open>IDKey\<close> is any function that, for this password and salt and the fixed parameters,
  returns a key of the 32 bytes asked for.
\<close>

theorem VerifyPassword_HashPassword:
  assumes "password \<noteq> ''''" and "salt \<noteq> ''''"
    and "IDKey (bytes_of password) (bytes_of salt) 1 65536 4 32 = Return hash"
    and "length hash = 32"
  shows "\<exists>key. HashPassword IDKey password salt = Return (key, None)
             \<and> VerifyPassword IDKey password key = Return None"
proof -
  let ?key = "Sprintf_key argon2_Version (uint (65536 :: uint32)) (uint (1 :: uint32))
                (uint (4 :: uint8)) (Encode (bytes_of salt)) (Encode hash)"
  have "HashPassword IDKey password salt = Return (?key, None)"
    using assms(1-3) by (rule HashPassword_Return)
  moreover have "VerifyPassword IDKey password ?key = Return None"
    using VerifyPassword_key_fields
      [OF assms(1) key_fields_Sprintf_key [of 65536 1 4 "bytes_of salt" hash], of IDKey]
    by (simp add: assms(3,4))
  ultimately show ?thesis by blast
qed

text \<open>A run with the stand-in for \<open>IDKey\<close>, which derives 32 bytes of value 24 here.\<close>

theorem VerifyPassword_HashPassword_witness:
  "\<exists>key. HashPassword toy_IDKey ''correct horse'' ''pepper'' = Return (key, None)
         \<and> VerifyPassword toy_IDKey ''correct horse'' key = Return None"
proof (rule VerifyPassword_HashPassword)
  show "''correct horse'' \<noteq> ''''" and "''pepper'' \<noteq> ''''"
    by simp_all
  show "toy_IDKey (bytes_of ''correct horse'') (bytes_of ''pepper'') 1 65536 4 32
        = Return (replicate 32 24)"
    by (simp add: toy_IDKey_def bytes_of_def)
  show "length (replicate 32 (24 :: byte)) = 32"
    by simp
qed

text \<open>
  C4: \<open>HashPassword\<close> is a function of the password, the salt and the key that the
  library derives from them with the fixed parameters (time 1, memory 65536, 4 threads,
  32 bytes): two libraries that agree there give the same result. For the password
  \<open>password\<close> and the salt \<open>salt\<close>, when the library derives the 32 bytes that the
  repository's test expects, the result is exactly the string of the specification.
\<close>

theorem HashPassword_deterministic_test_vector:
  "(IDKey (bytes_of password) (bytes_of salt) 1 65536 4 32
      = IDKey' (bytes_of password) (bytes_of salt) 1 65536 4 32
    \<longrightarrow> HashPassword IDKey password salt = HashPassword IDKey' password salt)
   \<and> (IDKey (bytes_of ''password'') (bytes_of ''salt'') 1 65536 4 32 = Return test_digest
    \<longrightarrow> HashPassword IDKey ''password'' ''salt''
        = Return (''$argon2id$v=19$m=65536,t=1,p=4$c2FsdA$OWwmnKFemKE2ILjM60j1so1oRXDFJYqvOiYlZTByvuU'',
                  None))"
proof (intro conjI impI)
  assume "IDKey (bytes_of password) (bytes_of salt) 1 65536 4 32
          = IDKey' (bytes_of password) (bytes_of salt) 1 65536 4 32"
  then show "HashPassword IDKey password salt = HashPassword IDKey' password salt"
    by (simp add: HashPassword_def ArgonTime_def ArgonMemory_def ArgonThreads_def ArgonKeyLen_def)
next
  assume "IDKey (bytes_of ''password'') (bytes_of ''salt'') 1 65536 4 32 = Return test_digest"
  then show "HashPassword IDKey ''password'' ''salt''
        = Return (''$argon2id$v=19$m=65536,t=1,p=4$c2FsdA$OWwmnKFemKE2ILjM60j1so1oRXDFJYqvOiYlZTByvuU'',
                  None)"
    by (simp add: HashPassword_def ArgonTime_def ArgonMemory_def ArgonThreads_def ArgonKeyLen_def
        EncodeToBase64String_def Encode_salt Encode_test_digest Sprintf_key_fixed)
qed

text \<open>
  A run with an \<open>IDKey\<close> that returns those bytes, compared with one that returns them
  for the fixed parameters only.
\<close>

theorem HashPassword_deterministic_test_vector_witness:
  "HashPassword test_IDKey ''password'' ''salt''
     = Return (''$argon2id$v=19$m=65536,t=1,p=4$c2FsdA$OWwmnKFemKE2ILjM60j1so1oRXDFJYqvOiYlZTByvuU'',
               None)
   \<and> HashPassword test_IDKey ''password'' ''salt''
     = HashPassword (\<lambda>password salt time memory threads keyLen.
         if time = 1 \<and> memory = 65536 \<and> threads = 4 \<and> keyLen = 32 then Return test_digest
         else Panic) ''password'' ''salt''"
proof (intro conjI)
  let ?other = "\<lambda>password salt time memory threads keyLen.
         if time = (1 :: uint32) \<and> memory = (65536 :: uint32) \<and> threads = (4 :: uint8)
            \<and> keyLen = (32 :: uint32)
         then Return test_digest else Panic"
  note vector = HashPassword_deterministic_test_vector
                  [of test_IDKey "''password''" "''salt''" ?other]
  from vector [THEN conjunct2] show "HashPassword test_IDKey ''password'' ''salt''
     = Return (''$argon2id$v=19$m=65536,t=1,p=4$c2FsdA$OWwmnKFemKE2ILjM60j1so1oRXDFJYqvOiYlZTByvuU'',
               None)"
    by (simp add: test_IDKey_def)
  have "test_IDKey (bytes_of ''password'') (bytes_of ''salt'') 1 65536 4 32
        = ?other (bytes_of ''password'') (bytes_of ''salt'') 1 65536 4 32"
    by (simp add: test_IDKey_def)
  with vector [THEN conjunct1] show "HashPassword test_IDKey ''password'' ''salt''
                    = HashPassword ?other ''password'' ''salt''"
    by blast
qed

subsection \<open>Runs on concrete keys\<close>

lemma Split_short: "Split ''$argon2id$v=19'' CHR ''$'' = ['''', ''argon2id'', ''v=19'']"
  by simp

lemma Split_v1: "Split ''$argon2id$v=1$m=65536,t=1,p=4$=$='' CHR ''$''
                 = ['''', ''argon2id'', ''v=1'', ''m=65536,t=1,p=4'', ''='', ''='']"
  by simp

lemma Sscanf_v_1: "Sscanf_v ''v=1'' = Inr 1"
  by (simp add: Sscanf_v_def scanInt_def scanNumber_def notEOF_def ParseInt_def SkipSpace_digit
      digit_value_def Let_def)

lemma Sscanf_v_x: "Sscanf_v ''v=x'' = Inl (Foreign ''expected integer'')"
  by (simp add: Sscanf_v_def scanInt_def scanNumber_def notEOF_def ParseInt_def SkipSpace_x
      digit_value_def Let_def)

lemma Encode_zeros: "Encode [0, 0, 0] = ''AAAA''"
  by code_simp

lemma Encode_17: "Encode [17, 17, 17] = ''ERER''"
  by code_simp

lemma Encode_pepper: "Encode (bytes_of ''pepper'') = ''cGVwcGVy''"
  by code_simp

lemma Encode_31: "Encode [31, 31, 31, 31] = ''Hx8fHw''"
  by code_simp

lemma toy_password_salt:
  "toy_IDKey (bytes_of ''password'') (bytes_of ''salt'') 1 65536 4 3 = Return [17, 17, 17]"
  by code_simp

lemma toy_pepper:
  "toy_IDKey (bytes_of ''correct horse'') (bytes_of ''pepper'') 3 8 1 4 = Return [31, 31, 31, 31]"
  by code_simp

lemma key_AAAA:
  "''$argon2id$v=19$m=65536,t=1,p=4$c2FsdA$AAAA''
   = Sprintf_key argon2_Version (uint (65536 :: uint32)) (uint (1 :: uint32)) (uint (4 :: uint8))
       (Encode (bytes_of ''salt'')) (Encode [0, 0, 0])"
  by (simp add: Sprintf_key_fixed Encode_salt Encode_zeros del: Encode.simps)

lemma key_ERER:
  "''$argon2id$v=19$m=65536,t=1,p=4$c2FsdA$ERER''
   = Sprintf_key argon2_Version (uint (65536 :: uint32)) (uint (1 :: uint32)) (uint (4 :: uint8))
       (Encode (bytes_of ''salt'')) (Encode [17, 17, 17])"
  by (simp add: Sprintf_key_fixed Encode_salt Encode_17 del: Encode.simps)

lemma key_pepper:
  "''$argon2id$v=19$m=8,t=3,p=1$cGVwcGVy$Hx8fHw''
   = Sprintf_key argon2_Version (uint (8 :: uint32)) (uint (3 :: uint32)) (uint (1 :: uint8))
       (EncodeToBase64String (bytes_of ''pepper'')) (EncodeToBase64String [31, 31, 31, 31])"
  by (simp add: Sprintf_key_def argon2_Version_def FormatInt_def FormatUint.simps
      EncodeToBase64String_def Encode_pepper Encode_31 del: Encode.simps)

lemma key_fields_AAAA:
  "key_fields ''$argon2id$v=19$m=65536,t=1,p=4$c2FsdA$AAAA''
   = Some (65536, 1, 4, bytes_of ''salt'', [0, 0, 0])"
  by (simp only: key_AAAA key_fields_Sprintf_key)

lemma key_fields_ERER:
  "key_fields ''$argon2id$v=19$m=65536,t=1,p=4$c2FsdA$ERER''
   = Some (65536, 1, 4, bytes_of ''salt'', [17, 17, 17])"
  by (simp only: key_ERER key_fields_Sprintf_key)

lemma VerifyPassword_ERER:
  "VerifyPassword toy_IDKey ''password'' ''$argon2id$v=19$m=65536,t=1,p=4$c2FsdA$ERER'' = Return None"
  using VerifyPassword_key_fields [OF _ key_fields_ERER, of "''password''" toy_IDKey]
  by (simp add: toy_password_salt)

lemma VerifyPassword_AAAA:
  "VerifyPassword toy_IDKey ''password'' ''$argon2id$v=19$m=65536,t=1,p=4$c2FsdA$AAAA''
   = Return (Some (Error EINVALID ''Hash not equal password.''))"
  using VerifyPassword_key_fields [OF _ key_fields_AAAA, of "''password''" toy_IDKey]
  by (simp add: toy_password_salt)

lemma VerifyPassword_short:
  "VerifyPassword IDKey ''password'' ''$argon2id$v=19''
   = Return (Some (Error EINVALID ''Decoded key wrong length.''))"
  by (simp add: VerifyPassword_def Split_short NewError_def del: Split.simps)

text \<open>
  C5: for every well-formed key, \<open>VerifyPassword\<close> calls \<open>IDKey\<close> with the memory cost,
  time cost and parallelism scanned from the key, the salt decoded from the key and
  the length of the decoded hash, and accepts exactly when the result is the decoded
  hash; the constants of \<open>HashPassword\<close> do not occur. A key printed in the format of
  \<open>HashPassword\<close> from any parameters, salt and hash is well formed with these fields, so
  a key made with other cost parameters than the constants verifies against its password.
\<close>

theorem VerifyPassword_uses_key_parameters:
  assumes "password \<noteq> ''''"
  shows "(key_fields key = Some (memory, time, threads, salt, hash) \<longrightarrow>
            VerifyPassword IDKey password key
            = (case IDKey (bytes_of password) salt time memory threads (of_nat (length hash)) of
                 Panic \<Rightarrow> Panic
               | Return control \<Rightarrow>
                   if control = hash then Return None
                   else Return (Some (Error EINVALID ''Hash not equal password.''))))
       \<and> key_fields (Sprintf_key argon2_Version (uint memory) (uint time) (uint threads)
                       (EncodeToBase64String salt) (EncodeToBase64String hash))
           = Some (memory, time, threads, salt, hash)
       \<and> (IDKey (bytes_of password) salt time memory threads keyLen = Return hash
            \<and> length hash = unat keyLen \<longrightarrow>
            VerifyPassword IDKey password
              (Sprintf_key argon2_Version (uint memory) (uint time) (uint threads)
                 (EncodeToBase64String salt) (EncodeToBase64String hash))
            = Return None)"
proof (intro conjI impI)
  assume "key_fields key = Some (memory, time, threads, salt, hash)"
  with assms show "VerifyPassword IDKey password key
            = (case IDKey (bytes_of password) salt time memory threads (of_nat (length hash)) of
                 Panic \<Rightarrow> Panic
               | Return control \<Rightarrow>
                   if control = hash then Return None
                   else Return (Some (Error EINVALID ''Hash not equal password.'')))"
    by (rule VerifyPassword_key_fields)
next
  show "key_fields (Sprintf_key argon2_Version (uint memory) (uint time) (uint threads)
                       (EncodeToBase64String salt) (EncodeToBase64String hash))
           = Some (memory, time, threads, salt, hash)"
    unfolding EncodeToBase64String_def by (rule key_fields_Sprintf_key)
next
  assume derived: "IDKey (bytes_of password) salt time memory threads keyLen = Return hash
                   \<and> length hash = unat keyLen"
  then have "of_nat (length hash) = keyLen"
    by simp
  with derived show "VerifyPassword IDKey password
              (Sprintf_key argon2_Version (uint memory) (uint time) (uint threads)
                 (EncodeToBase64String salt) (EncodeToBase64String hash))
            = Return None"
    using VerifyPassword_key_fields
      [OF assms key_fields_Sprintf_key, of IDKey memory time threads salt hash]
    by (simp add: EncodeToBase64String_def)
qed

text \<open>
  A key made with memory 8, time 3 and one thread, a salt of six bytes and a hash of
  four: none of the constants of \<open>HashPassword\<close>. It is well formed with these fields and
  verifies with the stand-in for \<open>IDKey\<close>.
\<close>

theorem VerifyPassword_uses_key_parameters_witness:
  "key_fields ''$argon2id$v=19$m=8,t=3,p=1$cGVwcGVy$Hx8fHw''
     = Some (8, 3, 1, bytes_of ''pepper'', [31, 31, 31, 31])
   \<and> toy_IDKey (bytes_of ''correct horse'') (bytes_of ''pepper'') 3 8 1 4 = Return [31, 31, 31, 31]
   \<and> VerifyPassword toy_IDKey ''correct horse'' ''$argon2id$v=19$m=8,t=3,p=1$cGVwcGVy$Hx8fHw''
     = Return None"
proof -
  have ne: "''correct horse'' \<noteq> ''''"
    by simp
  note param = VerifyPassword_uses_key_parameters
                 [OF ne, of _ 8 3 1 "bytes_of ''pepper''" "[31, 31, 31, 31]" toy_IDKey 4]
  have fields: "key_fields ''$argon2id$v=19$m=8,t=3,p=1$cGVwcGVy$Hx8fHw''
                = Some (8, 3, 1, bytes_of ''pepper'', [31, 31, 31, 31])"
    using param [THEN conjunct2, THEN conjunct1] by (simp only: key_pepper)
  have "VerifyPassword toy_IDKey ''correct horse'' ''$argon2id$v=19$m=8,t=3,p=1$cGVwcGVy$Hx8fHw''
        = Return None"
    using param [THEN conjunct2, THEN conjunct2] toy_pepper by (simp only: key_pepper) simp
  with fields toy_pepper show ?thesis
    by simp
qed

lemma VerifyPassword_v1:
  "VerifyPassword IDKey ''password'' ''$argon2id$v=1$m=65536,t=1,p=4$=$=''
   = Return (Some (Error EINVALID ''Argon version mismatch.''))"
  by (simp add: VerifyPassword_def Split_v1 Sscanf_v_1 NewError_def argon2_Version_def
      del: Split.simps)

lemma Split_vx: "Split ''$argon2id$v=x$m=65536,t=1,p=4$c2FsdA$AAAA'' CHR ''$''
                 = ['''', ''argon2id'', ''v=x'', ''m=65536,t=1,p=4'', ''c2FsdA'', ''AAAA'']"
  by simp

text \<open>
  Keys that the scanner reads leniently. After \<open>v=\<close> an underscore ends the number, so
  \<open>v=19_\<close> scans as 19 and \<open>v=1_9\<close> as 1; a no-break space before the number is
  skipped; a segment that ends after \<open>v=\<close> fails with \<open>EOF\<close>. A key whose version
  segment is \<open>v=19_\<close> is therefore well formed and verifies.
\<close>

lemma Sscanf_v_trailing_underscore: "Sscanf_v ''v=19_'' = Inr 19"
  by (simp add: Sscanf_v_def scanInt_def scanNumber_def notEOF_def ParseInt_def SkipSpace_digit
      digit_value_def Let_def)

lemma Sscanf_v_inner_underscore: "Sscanf_v ''v=1_9'' = Inr 1"
  by (simp add: Sscanf_v_def scanInt_def scanNumber_def notEOF_def ParseInt_def SkipSpace_digit
      digit_value_def Let_def)

lemma SkipSpace_no_break_space:
  "SkipSpace (CHR 0xC2 # CHR 0xA0 # ''19'') = Inr ''19''"
  by (subst SkipSpace.simps)
    (simp add: space_width_def space_encodings_def isSpace_def SkipSpace_digit)

lemma Sscanf_v_no_break_space:
  "Sscanf_v (''v='' @ CHR 0xC2 # CHR 0xA0 # ''19'') = Inr 19"
  by (simp add: Sscanf_v_def scanInt_def scanNumber_def notEOF_def ParseInt_def
      SkipSpace_no_break_space SkipSpace_digit digit_value_def Let_def)

lemma SkipSpace_empty: "SkipSpace '''' = Inr ''''"
  by (subst SkipSpace.simps) simp

lemma Sscanf_v_EOF: "Sscanf_v ''v='' = Inl (Foreign ''EOF'')"
  by (simp add: Sscanf_v_def scanInt_def notEOF_def SkipSpace_empty)

lemma Split_underscore:
  "Split ''$argon2id$v=19_$m=65536,t=1,p=4$c2FsdA$ERER'' CHR ''$''
   = ['''', ''argon2id'', ''v=19_'', ''m=65536,t=1,p=4'', ''c2FsdA'', ''ERER'']"
  by simp

lemma Sscanf_mtp_fixed: "Sscanf_mtp ''m=65536,t=1,p=4'' = Inr (65536, 1, 4)"
  using Sscanf_mtp_FormatUint [of 65536 1 4] by (simp add: FormatUint.simps)

lemma key_fields_underscore:
  "key_fields ''$argon2id$v=19_$m=65536,t=1,p=4$c2FsdA$ERER''
   = Some (65536, 1, 4, bytes_of ''salt'', [17, 17, 17])"
proof -
  have salt: "DecodeBase64String ''c2FsdA'' = Inr (bytes_of ''salt'')"
    using DecodeString_Encode [of "bytes_of ''salt''"]
    by (simp only: Encode_salt DecodeBase64String_def)
  have hash: "DecodeBase64String ''ERER'' = Inr [17, 17, 17]"
    using DecodeString_Encode [of "[17, 17, 17]"]
    by (simp only: Encode_17 DecodeBase64String_def)
  show ?thesis
    unfolding key_fields_def
    by (simp add: Split_underscore Sscanf_v_trailing_underscore Sscanf_mtp_fixed salt hash
        argon2_Version_def del: Split.simps)
qed

lemma VerifyPassword_underscore:
  "VerifyPassword toy_IDKey ''password'' ''$argon2id$v=19_$m=65536,t=1,p=4$c2FsdA$ERER''
   = Return None"
  using VerifyPassword_key_fields [OF _ key_fields_underscore, of "''password''" toy_IDKey]
  by (simp add: toy_password_salt)

text \<open>
  C6, as the specification states it, fails on the code: for a well-formed key whose
  embedded hash differs from the recomputed one, \<open>VerifyPassword\<close> returns an error value,
  and its code is \<open>EINVALID\<close>, the code it also returns for a key of three segments.
\<close>

theorem VerifyPassword_mismatch_is_error_counterexample:
  "VerifyPassword toy_IDKey ''password'' ''$argon2id$v=19$m=65536,t=1,p=4$c2FsdA$AAAA''
     = Return (Some (Error EINVALID ''Hash not equal password.''))
   \<and> VerifyPassword toy_IDKey ''password'' ''$argon2id$v=19''
     = Return (Some (Error EINVALID ''Decoded key wrong length.''))
   \<and> ErrorCode (Some (Error EINVALID ''Hash not equal password.''))
     = ErrorCode (Some (Error EINVALID ''Decoded key wrong length.''))"
  by (simp add: VerifyPassword_AAAA VerifyPassword_short)

text \<open>
  C6, amended: \<open>VerifyPassword\<close> reports both failure classes as error values. With a
  non-empty password, a key that is empty or does not split into exactly six
  \<open>$\<close>-segments, or whose version scans to another number than the library's, fails with
  an error of code \<open>EINVALID\<close>; a version or parameter segment that does not scan fails
  with the scanner's own error; a well-formed key whose recomputed hash differs from the
  embedded one fails with the error of code \<open>EINVALID\<close> and message
  \<open>Hash not equal password.\<close>, which is returned for no malformed key; and nil is
  returned only for a well-formed key whose recomputed hash is the embedded one.
\<close>

theorem VerifyPassword_failures_are_errors:
  assumes "password \<noteq> ''''"
  shows "(key = '''' \<or> length (Split key CHR ''$'') \<noteq> 6 \<longrightarrow>
            (\<exists>m. VerifyPassword IDKey password key = Return (Some (Error EINVALID m))
                 \<and> m \<noteq> ''Hash not equal password.''))
       \<and> (\<forall>version. key \<noteq> '''' \<and> length (Split key CHR ''$'') = 6
            \<and> Sscanf_v (Split key CHR ''$'' ! 2) = Inr version \<and> version \<noteq> argon2_Version \<longrightarrow>
            VerifyPassword IDKey password key
            = Return (Some (Error EINVALID ''Argon version mismatch.'')))
       \<and> (\<forall>err. key \<noteq> '''' \<and> length (Split key CHR ''$'') = 6
            \<and> (Sscanf_v (Split key CHR ''$'' ! 2) = Inl err
                \<or> Sscanf_v (Split key CHR ''$'' ! 2) = Inr argon2_Version
                  \<and> Sscanf_mtp (Split key CHR ''$'' ! 3) = Inl err) \<longrightarrow>
            VerifyPassword IDKey password key = Return (Some err) \<and> (\<exists>m. err = Foreign m))
       \<and> (key_fields key = None \<longrightarrow>
            (\<exists>e. VerifyPassword IDKey password key = Return (Some e)
                 \<and> e \<noteq> Error EINVALID ''Hash not equal password.''))
       \<and> (\<forall>memory time threads salt hash control.
            key_fields key = Some (memory, time, threads, salt, hash)
            \<and> IDKey (bytes_of password) salt time memory threads (of_nat (length hash))
                = Return control
            \<and> control \<noteq> hash \<longrightarrow>
            VerifyPassword IDKey password key
            = Return (Some (Error EINVALID ''Hash not equal password.'')))
       \<and> (VerifyPassword IDKey password key = Return None \<longrightarrow>
            (\<exists>memory time threads salt hash.
               key_fields key = Some (memory, time, threads, salt, hash)
               \<and> IDKey (bytes_of password) salt time memory threads (of_nat (length hash))
                   = Return hash))"
proof -
  have c1: "key = '''' \<or> length (Split key CHR ''$'') \<noteq> 6 \<longrightarrow>
            (\<exists>m. VerifyPassword IDKey password key = Return (Some (Error EINVALID m))
                 \<and> m \<noteq> ''Hash not equal password.'')"
    using assms by (auto simp: VerifyPassword_def NewError_def Let_def)
  have c2: "\<forall>version. key \<noteq> '''' \<and> length (Split key CHR ''$'') = 6
            \<and> Sscanf_v (Split key CHR ''$'' ! 2) = Inr version \<and> version \<noteq> argon2_Version \<longrightarrow>
            VerifyPassword IDKey password key
            = Return (Some (Error EINVALID ''Argon version mismatch.''))"
    using assms by (simp add: VerifyPassword_def NewError_def Let_def)
  have c3: "\<forall>err. key \<noteq> '''' \<and> length (Split key CHR ''$'') = 6
            \<and> (Sscanf_v (Split key CHR ''$'' ! 2) = Inl err
                \<or> Sscanf_v (Split key CHR ''$'' ! 2) = Inr argon2_Version
                  \<and> Sscanf_mtp (Split key CHR ''$'' ! 3) = Inl err) \<longrightarrow>
            VerifyPassword IDKey password key = Return (Some err) \<and> (\<exists>m. err = Foreign m)"
  proof (intro allI impI)
    fix err
    assume scan: "key \<noteq> '''' \<and> length (Split key CHR ''$'') = 6
          \<and> (Sscanf_v (Split key CHR ''$'' ! 2) = Inl err
              \<or> Sscanf_v (Split key CHR ''$'' ! 2) = Inr argon2_Version
                \<and> Sscanf_mtp (Split key CHR ''$'' ! 3) = Inl err)"
    then have "\<exists>m. err = Foreign m"
      using library_errorD [OF library_error_Sscanf_v] library_errorD [OF library_error_Sscanf_mtp]
      by blast
    moreover from assms scan have "VerifyPassword IDKey password key = Return (Some err)"
      by (auto simp: VerifyPassword_def Let_def)
    ultimately show "VerifyPassword IDKey password key = Return (Some err) \<and> (\<exists>m. err = Foreign m)"
      by simp
  qed
  have c4: "key_fields key = None \<longrightarrow>
            (\<exists>e. VerifyPassword IDKey password key = Return (Some e)
                 \<and> e \<noteq> Error EINVALID ''Hash not equal password.'')"
    using VerifyPassword_malformed by blast
  have c5: "\<forall>memory time threads salt hash control.
            key_fields key = Some (memory, time, threads, salt, hash)
            \<and> IDKey (bytes_of password) salt time memory threads (of_nat (length hash))
                = Return control
            \<and> control \<noteq> hash \<longrightarrow>
            VerifyPassword IDKey password key
            = Return (Some (Error EINVALID ''Hash not equal password.''))"
    using VerifyPassword_key_fields [OF assms, of key _ _ _ _ _ IDKey] by simp
  have c6: "VerifyPassword IDKey password key = Return None \<longrightarrow>
            (\<exists>memory time threads salt hash.
               key_fields key = Some (memory, time, threads, salt, hash)
               \<and> IDKey (bytes_of password) salt time memory threads (of_nat (length hash))
                   = Return hash)"
  proof
    assume ok: "VerifyPassword IDKey password key = Return None"
    show "\<exists>memory time threads salt hash.
            key_fields key = Some (memory, time, threads, salt, hash)
            \<and> IDKey (bytes_of password) salt time memory threads (of_nat (length hash))
                = Return hash"
    proof (cases "key_fields key")
      case None
      from VerifyPassword_malformed [OF None, of IDKey password] ok show ?thesis
        by simp
    next
      case (Some fields)
      obtain memory time threads salt hash where
        fields: "fields = (memory, time, threads, salt, hash)"
        by (cases fields) auto
      from VerifyPassword_key_fields [OF assms Some [unfolded fields], of IDKey] ok
      have "IDKey (bytes_of password) salt time memory threads (of_nat (length hash)) = Return hash"
        by (auto split: outcome.splits if_splits)
      with Some fields show ?thesis
        by blast
    qed
  qed
  show ?thesis
    by (intro conjI c1 c2 c3 c4 c5 c6)
qed

text \<open>
  Runs with the stand-in for \<open>IDKey\<close> and the password \<open>password\<close>: the keys of the
  repository's tests for a wrong length and a version mismatch, a version that does not
  scan, a well-formed key with another hash, and one with the hash the stand-in derives.
\<close>

theorem VerifyPassword_failures_are_errors_witness:
  "(\<exists>m. VerifyPassword toy_IDKey ''password'' ''$argon2id$v=19'' = Return (Some (Error EINVALID m))
        \<and> m \<noteq> ''Hash not equal password.'')
   \<and> VerifyPassword toy_IDKey ''password'' ''$argon2id$v=1$m=65536,t=1,p=4$=$=''
     = Return (Some (Error EINVALID ''Argon version mismatch.''))
   \<and> VerifyPassword toy_IDKey ''password'' ''$argon2id$v=x$m=65536,t=1,p=4$c2FsdA$AAAA''
     = Return (Some (Foreign ''expected integer''))
   \<and> VerifyPassword toy_IDKey ''password'' ''$argon2id$v=19$m=65536,t=1,p=4$c2FsdA$AAAA''
     = Return (Some (Error EINVALID ''Hash not equal password.''))
   \<and> VerifyPassword toy_IDKey ''password'' ''$argon2id$v=19$m=65536,t=1,p=4$c2FsdA$ERER''
     = Return None
   \<and> key_fields ''$argon2id$v=19$m=65536,t=1,p=4$c2FsdA$ERER''
     = Some (65536, 1, 4, bytes_of ''salt'', [17, 17, 17])"
proof -
  have ne: "''password'' \<noteq> ''''"
    by simp
  note classes = VerifyPassword_failures_are_errors [OF ne, of _ toy_IDKey]
  have short: "\<exists>m. VerifyPassword toy_IDKey ''password'' ''$argon2id$v=19''
                     = Return (Some (Error EINVALID m))
                   \<and> m \<noteq> ''Hash not equal password.''"
    using classes [of "''$argon2id$v=19''", THEN conjunct1]
    by (simp add: Split_short del: Split.simps)
  have v1: "VerifyPassword toy_IDKey ''password'' ''$argon2id$v=1$m=65536,t=1,p=4$=$=''
            = Return (Some (Error EINVALID ''Argon version mismatch.''))"
    using classes [of "''$argon2id$v=1$m=65536,t=1,p=4$=$=''", THEN conjunct2, THEN conjunct1,
        THEN spec, of 1]
    by (simp add: Split_v1 Sscanf_v_1 argon2_Version_def del: Split.simps)
  have vx: "VerifyPassword toy_IDKey ''password'' ''$argon2id$v=x$m=65536,t=1,p=4$c2FsdA$AAAA''
            = Return (Some (Foreign ''expected integer''))"
    using classes [of "''$argon2id$v=x$m=65536,t=1,p=4$c2FsdA$AAAA''", THEN conjunct2,
        THEN conjunct2, THEN conjunct1, THEN spec, of "Foreign ''expected integer''"]
    by (simp add: Split_vx Sscanf_v_x del: Split.simps)
  have mismatch: "VerifyPassword toy_IDKey ''password''
                    ''$argon2id$v=19$m=65536,t=1,p=4$c2FsdA$AAAA''
                  = Return (Some (Error EINVALID ''Hash not equal password.''))"
    using classes [of "''$argon2id$v=19$m=65536,t=1,p=4$c2FsdA$AAAA''", THEN conjunct2,
        THEN conjunct2, THEN conjunct2, THEN conjunct2, THEN conjunct1]
      key_fields_AAAA toy_password_salt
    by simp
  from classes [of "''$argon2id$v=19$m=65536,t=1,p=4$c2FsdA$ERER''", THEN conjunct2,
        THEN conjunct2, THEN conjunct2, THEN conjunct2, THEN conjunct2] VerifyPassword_ERER
  have "\<exists>memory time threads salt hash.
          key_fields ''$argon2id$v=19$m=65536,t=1,p=4$c2FsdA$ERER''
            = Some (memory, time, threads, salt, hash)"
    by blast
  with short v1 vx mismatch VerifyPassword_ERER key_fields_ERER show ?thesis
    by simp
qed

end
